theory Spec2Isabelle
  imports Main "HOL-Library.Multiset"
begin

section \<open>The data model of clueless/models.py\<close>

text \<open>
  Every Django model class is a record of its columns. A table is the list of its rows,
  in the order a query returns them. A foreign key to a row that the game mutates
  (a Player, a Turn, a DetectiveSheet) is the primary key of that row; a foreign key to a
  row of the seeded, read-only board and card registry (a Space, a Card) is the row
  itself. A Board row has no column but its key. The two timestamps of a Game, which no
  function reads, are left out.
\<close>

abbreviation (input) NOT_STARTED :: int where "NOT_STARTED \<equiv> 0"
abbreviation (input) STARTED :: int where "STARTED \<equiv> 1"
abbreviation (input) COMPLETE :: int where "COMPLETE \<equiv> 2"

abbreviation (input) LOST :: int where "LOST \<equiv> - 1"
abbreviation (input) NEITHER :: int where "NEITHER \<equiv> 0"
abbreviation (input) WON :: int where "WON \<equiv> 1"

datatype error =
    DoesNotExist
  | MultipleObjectsReturned
  | NotImplementedError
  | RuntimeError string
  | ZeroDivisionError
  | AttributeError
  | UnboundLocalError
  | ValueError
  | IndexError

record space =
  space_id :: nat
  posX :: int
  posY :: int
  spaceCollector :: nat

record auth_user =
  user_id :: nat
  username :: string

record card =
  card_id :: nat
  name :: string

text \<open>Room(SpaceCollection, Card): \<open>room_id\<close> is the SpaceCollection key, Room.id.\<close>

record room_card = card +
  room_id :: nat

record character_card = card +
  defaultSpace :: space
  characterColor :: string

record whoWhatWhere =
  character :: character_card
  weapon :: card
  room :: room_card

record player =
  player_id :: nat
  user :: "auth_user option"
  nonUserPlayer :: bool
  currentSpace :: space
  currentGame :: "nat option"
  player_character :: character_card
  gameResult :: int

record turn =
  turn_id :: nat
  turn_player :: nat
  turn_game :: nat

text \<open>
  The subclasses of Action. \<open>PlainAction\<close> is an instance of the class Action itself
  (or of any subclass other than the three): its validate and performAction raise.
\<close>

datatype action_body =
    Move (fromSpace: space) (toSpace: space)
  | Suggestion whoWhatWhere
  | Accusation whoWhatWhere
  | PlainAction

record action =
  action_turn :: turn
  body :: action_body

record game =
  game_id :: nat
  caseFile :: whoWhatWhere
  board :: nat
  status :: int
  hostPlayer :: nat
  game_name :: string
  currentSequence :: int
  currentTurn :: "nat option"

record detectiveSheet =
  sheet_id :: nat
  sheet_game :: nat
  sheet_player :: nat

record sheetItem =
  item_sheet :: nat
  item_card :: nat
  checked :: bool
  initiallyDealt :: bool
  manuallyChecked :: bool

text \<open>
  The database as one Game sees it: the Game row (\<open>self\<close> of the methods of Game, and
  \<open>turn.game\<close> of its turns) and the tables.
\<close>

record world =
  game_row :: game
  board_rows :: "nat list"
  player_rows :: "player list"
  turn_rows :: "turn list"
  action_rows :: "action list"
  space_rows :: "space list"
  card_rows :: "card list"
  character_rows :: "character_card list"
  room_rows :: "room_card list"
  weapon_rows :: "card list"
  sheet_rows :: "detectiveSheet list"
  item_rows :: "sheetItem list"

section \<open>Queries\<close>

text \<open>\<open>Model.objects.get(...)\<close>: the one row that matches, or an exception.\<close>

definition objects_get :: "('a \<Rightarrow> bool) \<Rightarrow> 'a list \<Rightarrow> error + 'a" where
  "objects_get P rows =
     (case filter P rows of
        [] \<Rightarrow> Inl DoesNotExist
      | [x] \<Rightarrow> Inr x
      | _ \<Rightarrow> Inl MultipleObjectsReturned)"

text \<open>Following a foreign key to a Player or a Turn loads the row with that key.\<close>

definition player_by_id :: "world \<Rightarrow> nat \<Rightarrow> error + player" where
  "player_by_id w pid = objects_get (\<lambda>p. player_id p = pid) (player_rows w)"

definition turn_by_id :: "world \<Rightarrow> nat \<Rightarrow> error + turn" where
  "turn_by_id w tid = objects_get (\<lambda>t. turn_id t = tid) (turn_rows w)"

text \<open>\<open>player.save()\<close> of a row that exists overwrites it; of a new one, appends it.\<close>

definition save_player :: "player \<Rightarrow> player list \<Rightarrow> player list" where
  "save_player p rows =
     (if \<exists>q \<in> set rows. player_id q = player_id p
      then map (\<lambda>q. if player_id q = player_id p then p else q) rows
      else rows @ [p])"

text \<open>The key an AutoField gives the next row.\<close>

definition fresh_id :: "nat list \<Rightarrow> nat" where
  "fresh_id ids = Suc (fold max ids 0)"

text \<open>\<open>Player.objects.filter(currentGame = self)\<close>\<close>

definition players_of_game :: "world \<Rightarrow> player list" where
  "players_of_game w =
     filter (\<lambda>p. currentGame p = Some (game_id (game_row w))) (player_rows w)"

section \<open>Cards and the case file\<close>

definition Card_compare :: "'a card_scheme \<Rightarrow> 'b card_scheme \<Rightarrow> bool" where
  "Card_compare self otherCard = (name self = name otherCard)"

definition WhoWhatWhere_compare :: "whoWhatWhere \<Rightarrow> whoWhatWhere \<Rightarrow> bool" where
  "WhoWhatWhere_compare self otherWhoWhatWhere =
     (let roomEqual = Card_compare (room self) (room otherWhoWhatWhere);
          charEqual = Card_compare (character self) (character otherWhoWhatWhere);
          weaponEqual = Card_compare (weapon self) (weapon otherWhoWhatWhere)
      in roomEqual \<and> charEqual \<and> weaponEqual)"

text \<open>
  \<open>CaseFile.createRandom\<close>. The three draws of \<open>random.randint(0, cnt - 1)\<close> are the
  arguments \<open>r1\<close>, \<open>r2\<close>, \<open>r3\<close>, reduced into the range; randint raises ValueError on
  the empty range.
\<close>

definition randint0 :: "nat \<Rightarrow> nat \<Rightarrow> error + nat" where
  "randint0 cnt r = (if cnt = 0 then Inl ValueError else Inr (r mod cnt))"

definition CaseFile_createRandom :: "world \<Rightarrow> nat \<Rightarrow> nat \<Rightarrow> nat \<Rightarrow> error + whoWhatWhere" where
  "CaseFile_createRandom w r1 r2 r3 =
     (case randint0 (length (character_rows w)) r1 of Inl e \<Rightarrow> Inl e | Inr i \<Rightarrow>
      case randint0 (length (room_rows w)) r2 of Inl e \<Rightarrow> Inl e | Inr j \<Rightarrow>
      case randint0 (length (weapon_rows w)) r3 of Inl e \<Rightarrow> Inl e | Inr k \<Rightarrow>
        Inr \<lparr>character = character_rows w ! i, weapon = weapon_rows w ! k,
             room = room_rows w ! j\<rparr>)"

section \<open>The Game\<close>

definition registerGameUpdate :: "world \<Rightarrow> world" where
  "registerGameUpdate w =
     w\<lparr>game_row := (game_row w)\<lparr>currentSequence := currentSequence (game_row w) + 1\<rparr>\<rparr>"

definition isAccusationCorrect :: "world \<Rightarrow> whoWhatWhere \<Rightarrow> bool" where
  "isAccusationCorrect w www = WhoWhatWhere_compare (caseFile (game_row w)) www"

definition endGame :: "world \<Rightarrow> player \<Rightarrow> world" where
  "endGame w winningPlayer =
     (let w1 = w\<lparr>player_rows := save_player (winningPlayer\<lparr>gameResult := WON\<rparr>) (player_rows w)\<rparr>;
          w2 = w1\<lparr>player_rows :=
                 map (\<lambda>p. if currentGame p = Some (game_id (game_row w1))
                              \<and> player_id p \<noteq> player_id winningPlayer
                           then p\<lparr>gameResult := LOST\<rparr> else p) (player_rows w1)\<rparr>;
          w3 = w2\<lparr>game_row := (game_row w2)\<lparr>status := 2\<rparr>\<rparr>
      in registerGameUpdate w3)"

definition loseGame :: "world \<Rightarrow> player \<Rightarrow> world" where
  "loseGame w losingPlayer =
     registerGameUpdate
       (w\<lparr>player_rows := save_player (losingPlayer\<lparr>gameResult := LOST\<rparr>) (player_rows w)\<rparr>)"

section \<open>Actions\<close>

definition Move_validate :: "space \<Rightarrow> space \<Rightarrow> bool" where
  "Move_validate fromS toS =
     (if posX fromS + 2 = posX toS \<or> posX fromS - 2 = posX toS
         \<or> posY fromS + 2 = posY toS \<or> posY fromS - 2 = posY toS
      then True else False)"

definition Suggestion_validate :: "world \<Rightarrow> action \<Rightarrow> whoWhatWhere \<Rightarrow> error + bool" where
  "Suggestion_validate w self www =
     (case player_by_id w (turn_player (action_turn self)) of
        Inl e \<Rightarrow> Inl e
      | Inr p \<Rightarrow>
          if room_id (room www) \<noteq> spaceCollector (currentSpace p) then Inr False
          else Inr True)"

definition validate :: "world \<Rightarrow> action \<Rightarrow> error + bool" where
  "validate w self =
     (case body self of
        Move f t \<Rightarrow> Inr (Move_validate f t)
      | Suggestion www \<Rightarrow> Suggestion_validate w self www
      | Accusation www \<Rightarrow> Inr True
      | PlainAction \<Rightarrow> Inl NotImplementedError)"

definition Suggestion_performAction :: "world \<Rightarrow> action \<Rightarrow> whoWhatWhere \<Rightarrow> error + world" where
  "Suggestion_performAction w self www =
     (let accusedCharacter = character www in
      case objects_get (\<lambda>p. currentGame p = Some (game_id (game_row w))
                            \<and> card_id (player_character p) = card_id accusedCharacter)
             (player_rows w) of
        Inl e \<Rightarrow> Inl e
      | Inr accusedPlayer \<Rightarrow>
          (case objects_get (\<lambda>s. spaceCollector s = room_id (room www)) (space_rows w) of
             Inl e \<Rightarrow> Inl e
           | Inr accusedSpace \<Rightarrow>
               Inr (w\<lparr>player_rows :=
                       save_player (accusedPlayer\<lparr>currentSpace := accusedSpace\<rparr>)
                         (player_rows w)\<rparr>)))"

definition Accusation_performAction :: "world \<Rightarrow> action \<Rightarrow> whoWhatWhere \<Rightarrow> error + world" where
  "Accusation_performAction w self www =
     (case player_by_id w (turn_player (action_turn self)) of
        Inl e \<Rightarrow> Inl e
      | Inr p \<Rightarrow>
          if isAccusationCorrect w www then Inr (endGame w p) else Inr (loseGame w p))"

definition Move_performAction :: "world \<Rightarrow> action \<Rightarrow> error + world" where
  "Move_performAction w self = Inr w"

definition performAction :: "world \<Rightarrow> action \<Rightarrow> error + world" where
  "performAction w self =
     (case body self of
        Move f t \<Rightarrow> Move_performAction w self
      | Suggestion www \<Rightarrow> Suggestion_performAction w self www
      | Accusation www \<Rightarrow> Accusation_performAction w self www
      | PlainAction \<Rightarrow> Inl NotImplementedError)"

text \<open>
  The factories save the WhoWhatWhere and the action itself, so the action is a row of
  its turn before \<open>takeAction\<close> sees it.
\<close>

definition createSuggestion ::
    "world \<Rightarrow> turn \<Rightarrow> character_card \<Rightarrow> room_card \<Rightarrow> card \<Rightarrow> action \<times> world" where
  "createSuggestion w t suspect rm wp =
     (let s = \<lparr>action_turn = t,
                body = Suggestion \<lparr>character = suspect, weapon = wp, room = rm\<rparr>\<rparr>
      in (s, w\<lparr>action_rows := action_rows w @ [s]\<rparr>))"

definition createAccusation ::
    "world \<Rightarrow> turn \<Rightarrow> character_card \<Rightarrow> room_card \<Rightarrow> card \<Rightarrow> action \<times> world" where
  "createAccusation w t suspect rm wp =
     (let a = \<lparr>action_turn = t,
                body = Accusation \<lparr>character = suspect, weapon = wp, room = rm\<rparr>\<rparr>
      in (a, w\<lparr>action_rows := action_rows w @ [a]\<rparr>))"

section \<open>The Turn\<close>

definition on_turn :: "turn \<Rightarrow> action \<Rightarrow> bool" where
  "on_turn t a = (turn_id (action_turn a) = turn_id t)"

definition isAccusation :: "action \<Rightarrow> bool" where
  "isAccusation a = (case body a of Accusation www \<Rightarrow> True | _ \<Rightarrow> False)"

definition isSuggestion :: "action \<Rightarrow> bool" where
  "isSuggestion a = (case body a of Suggestion www \<Rightarrow> True | _ \<Rightarrow> False)"

text \<open>\<open>Cls.objects.filter(turn = self).count()\<close>, \<open>isCls\<close> telling the rows of the class.\<close>

definition count_on_turn :: "world \<Rightarrow> turn \<Rightarrow> (action \<Rightarrow> bool) \<Rightarrow> nat" where
  "count_on_turn w t isCls = length (filter (\<lambda>a. on_turn t a \<and> isCls a) (action_rows w))"

definition Turn_validate_action :: "world \<Rightarrow> turn \<Rightarrow> action \<Rightarrow> bool" where
  "Turn_validate_action w self a =
     (case body a of
        Accusation www \<Rightarrow>
          if count_on_turn w self isAccusation > 1 then False else True
      | Suggestion www \<Rightarrow>
          if count_on_turn w self isSuggestion > 1 then False
          else if count_on_turn w self isAccusation > 0 then False
          else True
      | Move f t \<Rightarrow>
          if count_on_turn w self (\<lambda>a. True) > 1 then False else True
      | PlainAction \<Rightarrow> False)"

text \<open>
  \<open>takeAction\<close> returns None, or the message; an exception of \<open>validate\<close> or
  \<open>performAction\<close> passes through.
\<close>

definition takeAction :: "world \<Rightarrow> turn \<Rightarrow> action \<Rightarrow> error + (string option \<times> world)" where
  "takeAction w self a =
     (if \<not> Turn_validate_action w self a then Inr (Some ''Unable to perform action'', w)
      else case validate w a of
             Inl e \<Rightarrow> Inl e
           | Inr ok \<Rightarrow>
               if ok then (case performAction w a of
                             Inl e \<Rightarrow> Inl e
                           | Inr w' \<Rightarrow> Inr (None, w'))
               else Inr (Some ''Unable to perform action'', w))"

text \<open>\<open>Player.compare\<close>: equality of the users, which Django decides by primary key.\<close>

definition Player_compare :: "player \<Rightarrow> player \<Rightarrow> bool" where
  "Player_compare self otherPlayer =
     (map_option user_id (user self) = map_option user_id (user otherPlayer))"

text \<open>The loop of \<open>endTurn\<close>: \<open>next_player\<close> stays unbound when no player compares equal.\<close>

fun next_player_loop :: "player list \<Rightarrow> player \<Rightarrow> nat \<Rightarrow> player list \<Rightarrow> player option" where
  "next_player_loop players currentPlayer i [] = None"
| "next_player_loop players currentPlayer i (p # rest) =
     (if Player_compare p currentPlayer
      then Some (players ! ((i + 1) mod length players))
      else next_player_loop players currentPlayer (i + 1) rest)"

definition endTurn :: "world \<Rightarrow> turn \<Rightarrow> error + world" where
  "endTurn w self =
     (case currentTurn (game_row w) of
        None \<Rightarrow> Inl AttributeError
      | Some tid \<Rightarrow>
     (case turn_by_id w tid of
        Inl e \<Rightarrow> Inl e
      | Inr ct \<Rightarrow>
     (case player_by_id w (turn_player ct) of
        Inl e \<Rightarrow> Inl e
      | Inr currentPlayer \<Rightarrow>
          (let players = players_of_game w in
           case next_player_loop players currentPlayer 0 players of
             None \<Rightarrow> Inl UnboundLocalError
           | Some next_player \<Rightarrow>
               (let t = \<lparr>turn_id = fresh_id (map turn_id (turn_rows w)),
                         turn_player = player_id next_player,
                         turn_game = game_id (game_row w)\<rparr>
                in Inr (w\<lparr>turn_rows := turn_rows w @ [t],
                          game_row := (game_row w)\<lparr>currentTurn := Some (turn_id t)\<rparr>\<rparr>))))))"

section \<open>The DetectiveSheet\<close>

definition addDefaultSheets :: "world \<Rightarrow> detectiveSheet \<Rightarrow> world" where
  "addDefaultSheets w self =
     w\<lparr>item_rows := item_rows w @
          map (\<lambda>c. \<lparr>item_sheet = sheet_id self, item_card = card_id c, checked = False,
                     initiallyDealt = False, manuallyChecked = False\<rparr>) (card_rows w)\<rparr>"

text \<open>
  \<open>makeNote\<close> fetches the one item of the sheet for the card and saves it with the new
  flags: the row that is overwritten is the row that matched.
\<close>

definition item_matches :: "detectiveSheet \<Rightarrow> 'a card_scheme \<Rightarrow> sheetItem \<Rightarrow> bool" where
  "item_matches ds c si = (item_sheet si = sheet_id ds \<and> item_card si = card_id c)"

definition makeNote ::
    "world \<Rightarrow> detectiveSheet \<Rightarrow> card \<Rightarrow> bool \<Rightarrow> bool \<Rightarrow> bool \<Rightarrow> error + world" where
  "makeNote w self c chk dealt man =
     (case objects_get (item_matches self c) (item_rows w) of
        Inl e \<Rightarrow> Inl e
      | Inr si \<Rightarrow>
          Inr (w\<lparr>item_rows :=
                  map (\<lambda>r. if item_matches self c r
                            then si\<lparr>checked := chk, initiallyDealt := dealt,
                                    manuallyChecked := man\<rparr>
                            else r) (item_rows w)\<rparr>))"

section \<open>The life of a Game\<close>

definition initializeGame :: "world \<Rightarrow> player \<Rightarrow> nat \<Rightarrow> nat \<Rightarrow> nat \<Rightarrow> error + world" where
  "initializeGame w playerHost r1 r2 r3 =
     (case board_rows w of
        [] \<Rightarrow> Inl IndexError
      | b # bs \<Rightarrow>
     (case CaseFile_createRandom w r1 r2 r3 of
        Inl e \<Rightarrow> Inl e
      | Inr randCaseFile \<Rightarrow>
          Inr (registerGameUpdate
                 (w\<lparr>game_row := (game_row w)\<lparr>hostPlayer := player_id playerHost,
                                              board := b,
                                              status := NOT_STARTED,
                                              caseFile := randCaseFile\<rparr>\<rparr>))))"

definition unusedCharacters :: "world \<Rightarrow> character_card list" where
  "unusedCharacters w =
     (let usedCharacterIds = map (\<lambda>p. card_id (player_character p)) (players_of_game w)
      in filter (\<lambda>c. card_id c \<notin> set usedCharacterIds) (character_rows w))"

text \<open>
  The deal loop of \<open>startGame\<close>: card \<open>i\<close> of the shuffled list goes to sheet
  \<open>i % len(detectiveSheets)\<close>.
\<close>

fun deal_loop :: "nat \<Rightarrow> card list \<Rightarrow> detectiveSheet list \<Rightarrow> world \<Rightarrow> error + world" where
  "deal_loop i [] detectiveSheets w = Inr w"
| "deal_loop i (c # cs) detectiveSheets w =
     (if length detectiveSheets = 0 then Inl ZeroDivisionError
      else case makeNote w (detectiveSheets ! (i mod length detectiveSheets)) c True True False of
             Inl e \<Rightarrow> Inl e
           | Inr w' \<Rightarrow> deal_loop (Suc i) cs detectiveSheets w')"

definition non_case_file_cards :: "world \<Rightarrow> card list" where
  "non_case_file_cards w =
     filter (\<lambda>c. card_id c \<noteq> card_id (weapon (caseFile (game_row w))))
       (filter (\<lambda>c. card_id c \<noteq> card_id (room (caseFile (game_row w))))
          (filter (\<lambda>c. card_id c \<noteq> card_id (character (caseFile (game_row w))))
             (card_rows w)))"

definition sheets_of_game :: "world \<Rightarrow> detectiveSheet list" where
  "sheets_of_game w = filter (\<lambda>d. sheet_game d = game_id (game_row w)) (sheet_rows w)"

text \<open>The deal loop on the sheets of the game; \<open>cardList\<close> is the shuffled list.\<close>

definition deal :: "card list \<Rightarrow> world \<Rightarrow> error + world" where
  "deal cardList w = deal_loop 0 cardList (sheets_of_game w) w"

text \<open>
  The deal phase of \<open>startGame\<close>: the sheets of the game are fetched, the cards outside
  the case file are collected and shuffled, and the loop deals them. \<open>shuffle\<close> is what
  \<open>random.shuffle\<close> does to the list on this run.
\<close>

definition deal_phase :: "(card list \<Rightarrow> card list) \<Rightarrow> world \<Rightarrow> error + world" where
  "deal_phase shuffle w = deal (shuffle (non_case_file_cards w)) w"

fun create_nonUserPlayers :: "character_card list \<Rightarrow> world \<Rightarrow> world" where
  "create_nonUserPlayers [] w = w"
| "create_nonUserPlayers (c # cs) w =
     create_nonUserPlayers cs
       (w\<lparr>player_rows := player_rows w @
            [\<lparr>player_id = fresh_id (map player_id (player_rows w)), user = None,
              nonUserPlayer = True, currentSpace = defaultSpace c,
              currentGame = Some (game_id (game_row w)), player_character = c,
              gameResult = 0\<rparr>]\<rparr>)"

definition startGame :: "(card list \<Rightarrow> card list) \<Rightarrow> world \<Rightarrow> auth_user \<Rightarrow> error + world" where
  "startGame shuffle w usr =
     (if status (game_row w) \<noteq> 0 then Inl (RuntimeError ''Game already started'')
      else if length (players_of_game w) < 2
      then Inl (RuntimeError ''Game must have at least 2 players'')
      else case player_by_id w (hostPlayer (game_row w)) of
        Inl e \<Rightarrow> Inl e
      | Inr host \<Rightarrow>
          if map_option user_id (user host) \<noteq> Some (user_id usr)
          then Inl (RuntimeError ''Game can only be started by host'')
          else
           (let w1 = w\<lparr>game_row := (game_row w)\<lparr>status := STARTED\<rparr>\<rparr>;
                t = \<lparr>turn_id = fresh_id (map turn_id (turn_rows w1)),
                     turn_player = player_id host, turn_game = game_id (game_row w1)\<rparr>;
                w2 = w1\<lparr>turn_rows := turn_rows w1 @ [t],
                        game_row := (game_row w1)\<lparr>currentTurn := Some (turn_id t)\<rparr>\<rparr>
            in case deal_phase shuffle w2 of
                 Inl e \<Rightarrow> Inl e
               | Inr w3 \<Rightarrow>
                  (let w4 = create_nonUserPlayers (unusedCharacters w3) w3 in
                   case objects_get (\<lambda>p. map_option user_id (user p) = Some (user_id usr)
                                      \<and> currentGame p = Some (game_id (game_row w4)))
                          (player_rows w4) of
                     Inl e \<Rightarrow> Inl e
                   | Inr p \<Rightarrow>
                      (case objects_get (\<lambda>t. turn_player t = player_id p
                                           \<and> turn_game t = game_id (game_row w4))
                              (turn_rows w4) of
                         Inl e \<Rightarrow> Inl e
                       | Inr t' \<Rightarrow>
                           Inr (registerGameUpdate
                                  (w4\<lparr>game_row :=
                                        (game_row w4)\<lparr>currentTurn := Some (turn_id t')\<rparr>\<rparr>))))))"

text \<open>\<open>isUserInGame\<close>: the bare \<open>except\<close> turns every exception into False.\<close>

definition isUserInGame :: "world \<Rightarrow> auth_user option \<Rightarrow> bool" where
  "isUserInGame w u =
     (case u of
        None \<Rightarrow> False
      | Some usr \<Rightarrow>
          (case objects_get (\<lambda>p. currentGame p = Some (game_id (game_row w))
                               \<and> map_option user_id (user p) = Some (user_id usr))
                  (player_rows w) of
             Inl e \<Rightarrow> False
           | Inr p \<Rightarrow> True))"

definition isCharacterInGame :: "world \<Rightarrow> character_card \<Rightarrow> bool" where
  "isCharacterInGame w c =
     (length (filter (\<lambda>p. currentGame p = Some (game_id (game_row w))
                          \<and> card_id (player_character p) = card_id c) (player_rows w)) > 0)"

definition addPlayer :: "world \<Rightarrow> player \<Rightarrow> error + world" where
  "addPlayer w p =
     (if isUserInGame w (user p) then Inl (RuntimeError ''User is already a player in this game'')
      else if isCharacterInGame w (player_character p)
      then Inl (RuntimeError ''Character is already in use'')
      else
       (let w1 = w\<lparr>player_rows :=
                    save_player (p\<lparr>currentGame := Some (game_id (game_row w))\<rparr>) (player_rows w)\<rparr>;
            ds = \<lparr>sheet_id = fresh_id (map sheet_id (sheet_rows w1)),
                  sheet_game = game_id (game_row w1), sheet_player = player_id p\<rparr>;
            w2 = w1\<lparr>sheet_rows := sheet_rows w1 @ [ds]\<rparr>
        in Inr (registerGameUpdate (addDefaultSheets w2 ds))))"

section \<open>The snapshot of the game state\<close>

datatype json =
    JInt int
  | JStr string
  | JBool bool
  | JList "json list"
  | JDict "(string \<times> json) list"

definition character_json :: "character_card \<Rightarrow> json" where
  "character_json c =
     JDict [(''character_id'', JInt (int (card_id c))), (''character_name'', JStr (name c)),
            (''character_color'', JStr (characterColor c))]"

definition space_json :: "space \<Rightarrow> json" where
  "space_json s =
     JDict [(''space_id'', JInt (int (space_id s))), (''posX'', JInt (posX s)),
            (''posY'', JInt (posY s))]"

definition pData :: "player \<Rightarrow> error + json" where
  "pData p =
     (if nonUserPlayer p
      then Inr (JDict [(''player_id'', JInt (int (player_id p))),
                       (''username'', JStr ''not a user''),
                       (''character'', character_json (player_character p)),
                       (''currentSpace'', space_json (currentSpace p))])
      else case user p of
             None \<Rightarrow> Inl AttributeError
           | Some u \<Rightarrow>
               Inr (JDict [(''player_id'', JInt (int (player_id p))),
                           (''username'', JStr (username u)),
                           (''character'', character_json (player_character p)),
                           (''currentSpace'', space_json (currentSpace p))]))"

fun playerstates :: "player list \<Rightarrow> error + json list" where
  "playerstates [] = Inr []"
| "playerstates (p # ps) =
     (case pData p of
        Inl e \<Rightarrow> Inl e
      | Inr d \<Rightarrow> (case playerstates ps of Inl e \<Rightarrow> Inl e | Inr ds \<Rightarrow> Inr (d # ds)))"

definition gameStateJSON :: "world \<Rightarrow> player \<Rightarrow> error + json" where
  "gameStateJSON w requester =
     (case player_by_id w (hostPlayer (game_row w)) of
        Inl e \<Rightarrow> Inl e
      | Inr host \<Rightarrow>
     (case user host of
        None \<Rightarrow> Inl AttributeError
      | Some hostUser \<Rightarrow>
     (case playerstates (players_of_game w) of
        Inl e \<Rightarrow> Inl e
      | Inr ps \<Rightarrow>
          Inr (JDict [(''game_sequence'', JInt (currentSequence (game_row w))),
                      (''isHostPlayer'', JBool (player_id host = player_id requester)),
                      (''hostplayer'',
                         JDict [(''player_id'', JInt (int (player_id host))),
                                (''username'', JStr (username hostUser))]),
                      (''status'', JInt (status (game_row w))),
                      (''playerstates'', JList ps)]))))"

section \<open>A small game, for the concrete instances\<close>

definition study_space :: space where
  "study_space = \<lparr>space_id = 1, posX = 0, posY = 0, spaceCollector = 1\<rparr>"

definition hall_space :: space where
  "hall_space = \<lparr>space_id = 2, posX = 2, posY = 0, spaceCollector = 2\<rparr>"

definition lounge_space :: space where
  "lounge_space = \<lparr>space_id = 3, posX = 4, posY = 0, spaceCollector = 3\<rparr>"

definition lounge_annex :: space where
  "lounge_annex = \<lparr>space_id = 4, posX = 4, posY = 2, spaceCollector = 3\<rparr>"

definition corner_space :: space where
  "corner_space = \<lparr>space_id = 5, posX = 2, posY = 2, spaceCollector = 4\<rparr>"

definition study :: room_card where
  "study = \<lparr>card_id = 1, name = ''Study'', room_id = 1\<rparr>"

definition lounge :: room_card where
  "lounge = \<lparr>card_id = 2, name = ''Lounge'', room_id = 3\<rparr>"

text \<open>A second Room row that carries the name of the first.\<close>

definition study_twin :: room_card where
  "study_twin = \<lparr>card_id = 9, name = ''Study'', room_id = 5\<rparr>"

definition scarlet :: character_card where
  "scarlet = \<lparr>card_id = 3, name = ''Miss Scarlet'', defaultSpace = hall_space,
              characterColor = ''red''\<rparr>"

definition mustard :: character_card where
  "mustard = \<lparr>card_id = 4, name = ''Col. Mustard'', defaultSpace = hall_space,
              characterColor = ''yellow''\<rparr>"

definition plum :: character_card where
  "plum = \<lparr>card_id = 5, name = ''Prof. Plum'', defaultSpace = hall_space,
           characterColor = ''purple''\<rparr>"

definition rope :: card where
  "rope = \<lparr>card_id = 6, name = ''Rope''\<rparr>"

definition knife :: card where
  "knife = \<lparr>card_id = 7, name = ''Knife''\<rparr>"

definition wrench :: card where
  "wrench = \<lparr>card_id = 8, name = ''Wrench''\<rparr>"

definition all_cards :: "card list" where
  "all_cards =
     [\<lparr>card_id = 1, name = ''Study''\<rparr>, \<lparr>card_id = 2, name = ''Lounge''\<rparr>,
      \<lparr>card_id = 3, name = ''Miss Scarlet''\<rparr>, \<lparr>card_id = 4, name = ''Col. Mustard''\<rparr>,
      \<lparr>card_id = 5, name = ''Prof. Plum''\<rparr>, rope, knife, wrench]"

definition alice :: auth_user where
  "alice = \<lparr>user_id = 1, username = ''alice''\<rparr>"

definition bob :: auth_user where
  "bob = \<lparr>user_id = 2, username = ''bob''\<rparr>"

definition player1 :: player where
  "player1 = \<lparr>player_id = 1, user = Some alice, nonUserPlayer = False,
               currentSpace = study_space, currentGame = Some 1,
               player_character = scarlet, gameResult = NEITHER\<rparr>"

definition player2 :: player where
  "player2 = \<lparr>player_id = 2, user = Some bob, nonUserPlayer = False,
               currentSpace = hall_space, currentGame = Some 1,
               player_character = mustard, gameResult = NEITHER\<rparr>"

definition turn1 :: turn where
  "turn1 = \<lparr>turn_id = 1, turn_player = 1, turn_game = 1\<rparr>"

definition sheet1 :: detectiveSheet where
  "sheet1 = \<lparr>sheet_id = 1, sheet_game = 1, sheet_player = 1\<rparr>"

definition sheet2 :: detectiveSheet where
  "sheet2 = \<lparr>sheet_id = 2, sheet_game = 1, sheet_player = 2\<rparr>"

definition solution :: whoWhatWhere where
  "solution = \<lparr>character = scarlet, weapon = rope, room = study\<rparr>"

definition game1 :: game where
  "game1 = \<lparr>game_id = 1, caseFile = solution, board = 1, status = STARTED, hostPlayer = 1,
             game_name = ''game'', currentSequence = 5, currentTurn = Some 1\<rparr>"

text \<open>The game after both players joined: every sheet has its default items.\<close>

definition world0 :: world where
  "world0 =
     addDefaultSheets
       (addDefaultSheets
          \<lparr>game_row = game1, board_rows = [1], player_rows = [player1, player2],
           turn_rows = [turn1],
           action_rows = [], space_rows = [study_space, hall_space, lounge_space, corner_space],
           card_rows = all_cards, character_rows = [scarlet, mustard, plum],
           room_rows = [study, lounge], weapon_rows = [rope, knife, wrench],
           sheet_rows = [sheet1, sheet2], item_rows = []\<rparr>
          sheet1)
       sheet2"

text \<open>Player 1 standing in the lounge; and the same on a board whose lounge has two spaces.\<close>

definition world_lounge :: world where
  "world_lounge = world0\<lparr>player_rows := [player1\<lparr>currentSpace := lounge_space\<rparr>, player2]\<rparr>"

definition world_annex :: world where
  "world_annex = world_lounge\<lparr>space_rows := space_rows world_lounge @ [lounge_annex]\<rparr>"

definition suggest_study :: action where
  "suggest_study =
     \<lparr>action_turn = turn1, body = Suggestion \<lparr>character = mustard, weapon = knife, room = study\<rparr>\<rparr>"

definition suggest_lounge :: action where
  "suggest_lounge =
     \<lparr>action_turn = turn1, body = Suggestion \<lparr>character = mustard, weapon = knife, room = lounge\<rparr>\<rparr>"

definition accuse_right :: action where
  "accuse_right = \<lparr>action_turn = turn1, body = Accusation solution\<rparr>"

text \<open>An accusation that names the second Room row called Study.\<close>

definition accuse_twin :: action where
  "accuse_twin = \<lparr>action_turn = turn1, body = Accusation (solution\<lparr>room := study_twin\<rparr>)\<rparr>"

definition accuse_wrong :: action where
  "accuse_wrong =
     \<lparr>action_turn = turn1, body = Accusation \<lparr>character = plum, weapon = rope, room = study\<rparr>\<rparr>"

definition move_east :: action where
  "move_east = \<lparr>action_turn = turn1, body = Move study_space hall_space\<rparr>"

definition move_diagonal :: action where
  "move_diagonal = \<lparr>action_turn = turn1, body = Move study_space corner_space\<rparr>"

text \<open>
  What the turn already contains when \<open>a\<close> is attempted: the stored actions of the
  turn other than \<open>a\<close> itself.
\<close>

definition already_on_turn :: "world \<Rightarrow> turn \<Rightarrow> action \<Rightarrow> action list" where
  "already_on_turn w t a = filter (on_turn t) (remove1 a (action_rows w))"

text \<open>Turn 1 after a suggestion was saved; and after a move was saved behind it.\<close>

definition world1 :: world where
  "world1 = world0\<lparr>action_rows := [suggest_study]\<rparr>"

definition world2 :: world where
  "world2 = world0\<lparr>action_rows := [suggest_study, move_east]\<rparr>"

text \<open>
  The detective sheets after the deal. \<open>dealt_cards\<close> lists the cards of a sheet that
  are marked checked and initiallyDealt. \<open>targets\<close> lists, in the order of the loop,
  the (sheet, card) pairs the deal loop notes, and \<open>mark_dealt\<close> is the note it makes.
\<close>

definition item_key :: "sheetItem \<Rightarrow> nat \<times> nat" where
  "item_key si = (item_sheet si, item_card si)"

definition mark_dealt :: "sheetItem \<Rightarrow> sheetItem" where
  "mark_dealt r = r\<lparr>checked := True, initiallyDealt := True, manuallyChecked := False\<rparr>"

fun targets :: "nat \<Rightarrow> card list \<Rightarrow> detectiveSheet list \<Rightarrow> (nat \<times> nat) list" where
  "targets i [] ds = []"
| "targets i (c # cs) ds =
     (sheet_id (ds ! (i mod length ds)), card_id c) # targets (Suc i) cs ds"

definition dealt_cards :: "world \<Rightarrow> detectiveSheet \<Rightarrow> nat list" where
  "dealt_cards w d =
     map item_card
       (filter (\<lambda>si. item_sheet si = sheet_id d \<and> checked si \<and> initiallyDealt si) (item_rows w))"


text \<open>A third player who has not joined, and the small game before it was started.\<close>

definition carol :: auth_user where
  "carol = \<lparr>user_id = 3, username = ''carol''\<rparr>"

definition player3 :: player where
  "player3 = \<lparr>player_id = 3, user = Some carol, nonUserPlayer = False,
               currentSpace = hall_space, currentGame = None,
               player_character = plum, gameResult = NEITHER\<rparr>"

definition world_new :: world where
  "world_new = world0\<lparr>game_row := game1\<lparr>status := NOT_STARTED, currentTurn := None\<rparr>,
                       turn_rows := []\<rparr>"

text \<open>
  The same game after a note on the sheet of player 1, made before the start, that marks
  the Study (the room of the case file) as checked and initially dealt.
\<close>

definition world_noted :: world where
  "world_noted =
     (case makeNote world_new sheet1 \<lparr>card_id = 1, name = ''Study''\<rparr> True True False of
        Inl e \<Rightarrow> world_new
      | Inr w \<Rightarrow> w)"

section \<open>The comparison of triples\<close>

text \<open>
  C8, as the code has it. \<open>WhoWhatWhere.compare\<close> (which CaseFile inherits) is reflexive,
  and it returns true exactly when the names of the two rooms, of the two characters and
  of the two weapons are equal: it returns false whenever one of the three names differs.
  \<open>Card.compare\<close> reads the \<open>name\<close> column, not the primary key.
\<close>

theorem WhoWhatWhere_compare_names:
  "WhoWhatWhere_compare t t \<and>
   WhoWhatWhere_compare t u =
     (name (room t) = name (room u) \<and> name (character t) = name (character u)
      \<and> name (weapon t) = name (weapon u))"
  by (simp add: WhoWhatWhere_compare_def Card_compare_def)

text \<open>
  C8 as stated fails: two triples whose rooms are different Room rows (different primary
  keys) of the same name compare equal, although one of the three fields differs.
\<close>

theorem WhoWhatWhere_compare_identity_counterexample:
  "WhoWhatWhere_compare solution (solution\<lparr>room := study_twin\<rparr>)
   \<and> card_id (room solution) \<noteq> card_id (room (solution\<lparr>room := study_twin\<rparr>))
   \<and> solution \<noteq> solution\<lparr>room := study_twin\<rparr>"
  by code_simp

section \<open>Moves\<close>

text \<open>
  C3 at the input where the code departs from it. \<open>Move.validate\<close> accepts the move from
  (0,0) to (2,2), two units along both axes, which the claim says it refuses: the
  condition is a disjunction of the four single-axis equalities and never looks at the
  other axis.
\<close>

theorem Move_validate_diagonal:
  "Move_validate study_space corner_space
   \<and> posX corner_space = posX study_space + 2 \<and> posY corner_space = posY study_space + 2"
  by code_simp

text \<open>
  C7 at a concrete move. The body of \<open>Move.performAction\<close> is \<open>pass\<close>: the move of
  player 1 from the study to the hall is admitted and executed, \<open>takeAction\<close> returns
  None, and the database is what it was; the mover's current space is still the study,
  not the destination.
\<close>

theorem Move_leaves_mover_in_place:
  "takeAction world0 turn1 move_east = Inr (None, world0)
   \<and> player_by_id world0 (turn_player turn1) = Inr player1
   \<and> currentSpace player1 \<noteq> toSpace (body move_east)"
  by code_simp

section \<open>Actions of an unknown class\<close>

text \<open>
  C10. For an action whose class is none of Move, Suggestion and Accusation, the
  ordering pre-check returns false and \<open>takeAction\<close> returns the message with the
  database unchanged. \<open>performAction\<close> was not invoked: invoked on such an action, it
  raises NotImplementedError, and \<open>takeAction\<close> would have passed the exception on.
\<close>

theorem takeAction_unknown_class:
  "\<not> Turn_validate_action w t \<lparr>action_turn = tt, body = PlainAction\<rparr>
   \<and> takeAction w t \<lparr>action_turn = tt, body = PlainAction\<rparr>
       = Inr (Some ''Unable to perform action'', w)
   \<and> performAction w' \<lparr>action_turn = tt, body = PlainAction\<rparr> = Inl NotImplementedError"
  by (simp add: Turn_validate_action_def takeAction_def performAction_def)

section \<open>The snapshot\<close>

text \<open>
  C9. The snapshot \<open>gameStateJSON\<close> builds for a requesting player does not depend on
  the case file or on the sheet items: replacing the CaseFile triple of the game and the
  whole SheetItem table by any others gives the same snapshot (or the same exception).
\<close>

theorem gameStateJSON_hides_case_file_and_sheets:
  "gameStateJSON (w\<lparr>game_row := (game_row w)\<lparr>caseFile := cf\<rparr>, item_rows := items\<rparr>) requester
     = gameStateJSON w requester"
  by (simp add: gameStateJSON_def player_by_id_def players_of_game_def
        split: sum.split option.split)

section \<open>The sequence counter\<close>

text \<open>
  C5 at the operation where the code departs from it. \<open>endTurn\<close> creates the turn of
  the next player and moves \<open>currentTurn\<close> to it, but it never calls
  \<open>registerGameUpdate\<close>: the counter after it equals the counter before.
\<close>

theorem endTurn_keeps_sequence:
  "(case endTurn world0 turn1 of
      Inl e \<Rightarrow> False
    | Inr w' \<Rightarrow> currentTurn (game_row w') = Some 2 \<and> currentTurn (game_row world0) = Some 1
        \<and> currentSequence (game_row w') = currentSequence (game_row world0))"
  by code_simp


section \<open>The ordering of the actions of a turn\<close>

lemma length_filter_remove1:
  "a \<in> set xs \<Longrightarrow> P a \<Longrightarrow> length (filter P xs) = Suc (length (filter P (remove1 a xs)))"
  by (induction xs) auto

lemma filter_remove1_other:
  "\<not> P a \<Longrightarrow> filter P (remove1 a xs) = filter P xs"
  by (induction xs) auto

text \<open>A stored action of the turn counts itself: more than one row of its class means another one.\<close>

lemma count_on_turn_own:
  assumes "a \<in> set (action_rows w)" and "on_turn t a" and "isCls a"
  shows "count_on_turn w t isCls > 1 \<longleftrightarrow> (\<exists>b \<in> set (already_on_turn w t a). isCls b)"
proof -
  let ?P = "\<lambda>b. on_turn t b \<and> isCls b"
  have "length (filter ?P (action_rows w)) = Suc (length (filter ?P (remove1 a (action_rows w))))"
    using assms by (intro length_filter_remove1) auto
  moreover have "(0 < length (filter ?P (remove1 a (action_rows w))))
      = (\<exists>b \<in> set (remove1 a (action_rows w)). ?P b)"
    by (simp add: length_greater_0_conv filter_empty_conv)
  ultimately show ?thesis
    by (auto simp: count_on_turn_def already_on_turn_def)
qed

lemma count_on_turn_other:
  assumes "\<not> isCls a"
  shows "count_on_turn w t isCls > 0 \<longleftrightarrow> (\<exists>b \<in> set (already_on_turn w t a). isCls b)"
proof -
  let ?P = "\<lambda>b. on_turn t b \<and> isCls b"
  have "filter ?P (remove1 a (action_rows w)) = filter ?P (action_rows w)"
    using assms by (intro filter_remove1_other) simp
  then have "(0 < length (filter ?P (action_rows w)))
      = (\<exists>b \<in> set (remove1 a (action_rows w)). ?P b)"
    by (metis (mono_tags, lifting) filter_empty_conv length_greater_0_conv)
  then show ?thesis
    by (auto simp: count_on_turn_def already_on_turn_def)
qed

text \<open>
  C1, as the code has it. Let the attempted action be a stored row of the turn, as
  \<open>createSuggestion\<close> and \<open>createAccusation\<close> leave theirs. Then the ordering pre-check
  admits a Move exactly when the turn holds no other action, a Suggestion exactly when
  the turn holds no other Suggestion and no Accusation, an Accusation exactly when the
  turn holds no other Accusation, and no action of another class. Whenever the
  pre-check rejects, \<open>takeAction\<close> returns the message and the database is unchanged:
  nothing was executed.
\<close>

theorem Turn_validate_action_stored:
  assumes "a \<in> set (action_rows w)" and "on_turn t a"
  shows "Turn_validate_action w t a =
           (case body a of
              Move f s \<Rightarrow> already_on_turn w t a = []
            | Suggestion www \<Rightarrow>
                \<not> (\<exists>b \<in> set (already_on_turn w t a). isSuggestion b \<or> isAccusation b)
            | Accusation www \<Rightarrow> \<not> (\<exists>b \<in> set (already_on_turn w t a). isAccusation b)
            | PlainAction \<Rightarrow> False)
         \<and> (Turn_validate_action w t a
            \<or> takeAction w t a = Inr (Some ''Unable to perform action'', w))"
proof (cases "body a")
  case (Move f s)
  have "count_on_turn w t (\<lambda>a. True) > 1 \<longleftrightarrow> (\<exists>b \<in> set (already_on_turn w t a). True)"
    using assms by (intro count_on_turn_own) auto
  then show ?thesis using Move
    by (auto simp: Turn_validate_action_def takeAction_def)
next
  case (Suggestion www)
  then have "isSuggestion a" "\<not> isAccusation a"
    by (simp_all add: isSuggestion_def isAccusation_def)
  then show ?thesis
    using Suggestion count_on_turn_own[OF assms, of isSuggestion]
      count_on_turn_other[of isAccusation a w t]
    by (auto simp: Turn_validate_action_def takeAction_def)
next
  case (Accusation www)
  then have "isAccusation a" by (simp add: isAccusation_def)
  then show ?thesis
    using Accusation count_on_turn_own[OF assms, of isAccusation]
    by (auto simp: Turn_validate_action_def takeAction_def)
next
  case PlainAction
  then show ?thesis by (simp add: Turn_validate_action_def takeAction_def)
qed

text \<open>
  The instance: a move saved on turn 1 behind a saved suggestion is rejected, and the
  database stays as it was.
\<close>

theorem Turn_validate_action_stored_witness:
  "move_east \<in> set (action_rows world2) \<and> on_turn turn1 move_east
   \<and> already_on_turn world2 turn1 move_east = [suggest_study]
   \<and> \<not> Turn_validate_action world2 turn1 move_east
   \<and> takeAction world2 turn1 move_east = Inr (Some ''Unable to perform action'', world2)"
proof -
  have h1: "move_east \<in> set (action_rows world2)" by code_simp
  have h2: "on_turn turn1 move_east" by code_simp
  have h3: "already_on_turn world2 turn1 move_east = [suggest_study]" by code_simp
  have h4: "body move_east = Move study_space hall_space" by code_simp
  show ?thesis
    using Turn_validate_action_stored[OF h1 h2] h1 h2 h3 h4
    by (simp only: action_body.case) blast
qed

text \<open>
  C1 as stated fails for an action object that is not itself a row of the turn. Turn 1
  holds one stored action, a suggestion; a Move that was built but not saved is admitted
  by the pre-check (one row is not more than one) and executed: \<open>takeAction\<close> returns
  None.
\<close>

theorem takeAction_second_move_counterexample:
  "filter (on_turn turn1) (action_rows world1) = [suggest_study]
   \<and> Turn_validate_action world1 turn1 move_east
   \<and> takeAction world1 turn1 move_east = Inr (None, world1)"
  by code_simp


section \<open>Accusations\<close>

lemma objects_get_Inr: "objects_get P rows = Inr x \<longleftrightarrow> filter P rows = [x]"
  by (auto simp: objects_get_def split: list.splits)

lemma filter_singleton_mem:
  assumes "filter P rows = [x]"
  shows "x \<in> set rows" and "P x" and "\<And>y. y \<in> set rows \<Longrightarrow> P y \<Longrightarrow> y = x"
proof -
  have s: "set (filter P rows) = {x}" using assms by simp
  have "x \<in> set (filter P rows)" using s by blast
  then show "x \<in> set rows" and "P x" by simp_all
  fix y assume "y \<in> set rows" "P y"
  then have "y \<in> set (filter P rows)" by simp
  then show "y = x" unfolding s by blast
qed

lemma save_player_existing:
  assumes "filter (\<lambda>q. player_id q = pid) rows = [p]" and "player_id (f p) = pid"
  shows "save_player (f p) rows = map (\<lambda>q. if player_id q = pid then f q else q) rows"
proof -
  note m = filter_singleton_mem[OF assms(1)]
  have ex: "\<exists>q \<in> set rows. player_id q = player_id (f p)" using m(1,2) assms(2) by auto
  have "map (\<lambda>q. if player_id q = player_id (f p) then f p else q) rows
      = map (\<lambda>q. if player_id q = pid then f q else q) rows"
    using m(3) assms(2) by (intro map_cong) auto
  then show ?thesis using ex by (simp add: save_player_def)
qed

text \<open>
  C2, as the code has it. Let the accusation be executed and let the accusing player
  (the player of the accusation's turn) be a row of the Player table. If the character,
  the weapon and the room of the accusation carry the names of the character, the weapon
  and the room of the case file, the accusing player's gameResult becomes Won, every
  other player of the game becomes Lost and the status of the game becomes Complete. If
  one of the three names differs, the accusing player's gameResult becomes Lost, the row
  of every other player is what it was, and the status is what it was (a Started game
  remains Started). In both cases \<open>performAction\<close> returns.
\<close>

theorem Accusation_performAction_result:
  assumes "body a = Accusation www"
      and "player_by_id w (turn_player (action_turn a)) = Inr p"
  shows "\<exists>w'. performAction w a = Inr w'
           \<and> (if name (character www) = name (character (caseFile (game_row w)))
                 \<and> name (weapon www) = name (weapon (caseFile (game_row w)))
                 \<and> name (room www) = name (room (caseFile (game_row w)))
              then status (game_row w') = COMPLETE
                 \<and> player_rows w' =
                     map (\<lambda>q. if player_id q = player_id p then q\<lparr>gameResult := WON\<rparr>
                              else if currentGame q = Some (game_id (game_row w))
                              then q\<lparr>gameResult := LOST\<rparr> else q) (player_rows w)
              else status (game_row w') = status (game_row w)
                 \<and> player_rows w' =
                     map (\<lambda>q. if player_id q = player_id p then q\<lparr>gameResult := LOST\<rparr> else q)
                       (player_rows w))"
proof -
  have f: "filter (\<lambda>q. player_id q = turn_player (action_turn a)) (player_rows w) = [p]"
    using assms(2) by (simp add: player_by_id_def objects_get_Inr)
  have pid: "player_id p = turn_player (action_turn a)"
    using filter_singleton_mem(2)[OF f] .
  have won: "save_player (p\<lparr>gameResult := WON\<rparr>) (player_rows w)
      = map (\<lambda>q. if player_id q = player_id p then q\<lparr>gameResult := WON\<rparr> else q) (player_rows w)"
    using save_player_existing[OF f, of "\<lambda>q. q\<lparr>gameResult := WON\<rparr>"] pid by simp
  have lost: "save_player (p\<lparr>gameResult := LOST\<rparr>) (player_rows w)
      = map (\<lambda>q. if player_id q = player_id p then q\<lparr>gameResult := LOST\<rparr> else q) (player_rows w)"
    using save_player_existing[OF f, of "\<lambda>q. q\<lparr>gameResult := LOST\<rparr>"] pid by simp
  have cmp: "WhoWhatWhere_compare (caseFile (game_row w)) www
      = (name (character www) = name (character (caseFile (game_row w)))
                 \<and> name (weapon www) = name (weapon (caseFile (game_row w)))
                 \<and> name (room www) = name (room (caseFile (game_row w))))"
    by (auto simp: WhoWhatWhere_compare_def Card_compare_def)
  show ?thesis
  proof (cases "WhoWhatWhere_compare (caseFile (game_row w)) www")
    case True
    then have "performAction w a = Inr (endGame w p)"
      using assms by (simp add: performAction_def Accusation_performAction_def isAccusationCorrect_def)
    moreover have "status (game_row (endGame w p)) = COMPLETE"
      by (simp add: endGame_def registerGameUpdate_def Let_def)
    moreover have "player_rows (endGame w p) =
        map (\<lambda>q. if player_id q = player_id p then q\<lparr>gameResult := WON\<rparr>
                 else if currentGame q = Some (game_id (game_row w))
                 then q\<lparr>gameResult := LOST\<rparr> else q) (player_rows w)"
      by (simp add: endGame_def registerGameUpdate_def Let_def won)
    moreover have n: "name (character www) = name (character (caseFile (game_row w)))
                 \<and> name (weapon www) = name (weapon (caseFile (game_row w)))
                 \<and> name (room www) = name (room (caseFile (game_row w)))"
      using True cmp by blast
    ultimately show ?thesis unfolding if_P[OF n] by blast
  next
    case False
    then have "performAction w a = Inr (loseGame w p)"
      using assms by (simp add: performAction_def Accusation_performAction_def isAccusationCorrect_def)
    moreover have "status (game_row (loseGame w p)) = status (game_row w)"
      by (simp add: loseGame_def registerGameUpdate_def)
    moreover have "player_rows (loseGame w p) =
        map (\<lambda>q. if player_id q = player_id p then q\<lparr>gameResult := LOST\<rparr> else q) (player_rows w)"
      by (simp add: loseGame_def registerGameUpdate_def lost)
    moreover have n: "\<not> (name (character www) = name (character (caseFile (game_row w)))
                 \<and> name (weapon www) = name (weapon (caseFile (game_row w)))
                 \<and> name (room www) = name (room (caseFile (game_row w))))"
      using False cmp by blast
    ultimately show ?thesis unfolding if_not_P[OF n] by blast
  qed
qed


text \<open>
  The two instances on the small game: player 1 accuses with the solution and wins,
  player 2 is Lost and the game is Complete; player 1 accuses with the wrong character
  and is Lost, player 2 stays Neither and the game stays Started.
\<close>

theorem Accusation_performAction_result_witness:
  "(\<exists>w'. performAction world0 accuse_right = Inr w' \<and> status (game_row w') = COMPLETE
          \<and> map gameResult (player_rows w') = [WON, LOST])
   \<and> (\<exists>w'. performAction world0 accuse_wrong = Inr w' \<and> status (game_row w') = STARTED
          \<and> map gameResult (player_rows w') = [LOST, NEITHER])"
proof -
  have b1: "body accuse_right = Accusation solution" by code_simp
  have p1: "player_by_id world0 (turn_player (action_turn accuse_right)) = Inr player1"
    by code_simp
  have c1: "name (character solution) = name (character (caseFile (game_row world0)))
            \<and> name (weapon solution) = name (weapon (caseFile (game_row world0)))
            \<and> name (room solution) = name (room (caseFile (game_row world0)))" by code_simp
  have e1: "map gameResult
              (map (\<lambda>q. if player_id q = player_id player1 then q\<lparr>gameResult := WON\<rparr>
                        else if currentGame q = Some (game_id (game_row world0))
                        then q\<lparr>gameResult := LOST\<rparr> else q) (player_rows world0)) = [WON, LOST]"
    by code_simp
  have b2: "body accuse_wrong = Accusation \<lparr>character = plum, weapon = rope, room = study\<rparr>"
    by code_simp
  have p2: "player_by_id world0 (turn_player (action_turn accuse_wrong)) = Inr player1"
    by code_simp
  have c2: "name (character \<lparr>character = plum, weapon = rope, room = study\<rparr>)
              \<noteq> name (character (caseFile (game_row world0)))" by code_simp
  have e2: "map gameResult
              (map (\<lambda>q. if player_id q = player_id player1 then q\<lparr>gameResult := LOST\<rparr> else q)
                 (player_rows world0)) = [LOST, NEITHER]"
    by code_simp
  have s2: "status (game_row world0) = STARTED" by code_simp
  from Accusation_performAction_result[OF b1 p1] c1 e1
  have r1: "\<exists>w'. performAction world0 accuse_right = Inr w' \<and> status (game_row w') = COMPLETE
          \<and> map gameResult (player_rows w') = [WON, LOST]"
    by (metis (no_types, lifting))
  from Accusation_performAction_result[OF b2 p2] c2 e2 s2
  have r2: "\<exists>w'. performAction world0 accuse_wrong = Inr w' \<and> status (game_row w') = STARTED
          \<and> map gameResult (player_rows w') = [LOST, NEITHER]"
    by (metis (no_types, lifting))
  from r1 r2 show ?thesis by blast
qed

text \<open>
  C2 as stated fails when a card of the accusation is another row of the same name. The
  accusation names the second Room row called Study: its triple is not the triple of the
  case file (the rooms have different primary keys), yet the accusing player becomes Won,
  player 2 becomes Lost and the game becomes Complete.
\<close>

theorem Accusation_same_names_counterexample:
  "body accuse_twin = Accusation (solution\<lparr>room := study_twin\<rparr>)
   \<and> solution\<lparr>room := study_twin\<rparr> \<noteq> caseFile (game_row world0)
   \<and> card_id (room (solution\<lparr>room := study_twin\<rparr>))
       \<noteq> card_id (room (caseFile (game_row world0)))
   \<and> (case performAction world0 accuse_twin of
         Inl e \<Rightarrow> False
       | Inr w' \<Rightarrow> status (game_row w') = COMPLETE
           \<and> map gameResult (player_rows w') = [WON, LOST])"
  by code_simp

section \<open>Suggestions\<close>

text \<open>
  C6, as the code has it. Let the suggesting player be a row of the Player table, let
  exactly one player of the game hold the suggested character, and let the suggested
  room contain exactly one space. Then \<open>Suggestion.validate\<close> returns true exactly when
  the suggested room is the space collection of the suggesting player's current space,
  and \<open>Suggestion.performAction\<close> sets the current space of the suggested character's
  player to the space of the suggested room and changes the row of no other player
  (and nothing else in the database).
\<close>

theorem Suggestion_validate_and_perform:
  assumes "body a = Suggestion www"
      and "player_by_id w (turn_player (action_turn a)) = Inr p"
      and "filter (\<lambda>q. currentGame q = Some (game_id (game_row w))
                        \<and> card_id (player_character q) = card_id (character www))
             (player_rows w) = [accused]"
      and "filter (\<lambda>s. spaceCollector s = room_id (room www)) (space_rows w) = [sp]"
  shows "validate w a = Inr (room_id (room www) = spaceCollector (currentSpace p))
       \<and> performAction w a =
           Inr (w\<lparr>player_rows :=
                  map (\<lambda>q. if player_id q = player_id accused
                           then accused\<lparr>currentSpace := sp\<rparr> else q) (player_rows w)\<rparr>)
       \<and> spaceCollector sp = room_id (room www)"
proof -
  have v: "validate w a = Inr (room_id (room www) = spaceCollector (currentSpace p))"
    using assms(1,2) by (simp add: validate_def Suggestion_validate_def)
  have mem: "accused \<in> set (player_rows w)"
    using filter_singleton_mem(1)[OF assms(3)] .
  then have sv: "save_player (accused\<lparr>currentSpace := sp\<rparr>) (player_rows w)
      = map (\<lambda>q. if player_id q = player_id accused
                 then accused\<lparr>currentSpace := sp\<rparr> else q) (player_rows w)"
    by (auto simp: save_player_def)
  have "performAction w a =
           Inr (w\<lparr>player_rows := save_player (accused\<lparr>currentSpace := sp\<rparr>) (player_rows w)\<rparr>)"
    using assms
    by (simp add: performAction_def Suggestion_performAction_def objects_get_def)
  with sv v filter_singleton_mem(2)[OF assms(4)] show ?thesis by simp
qed

text \<open>
  The instance: player 1, standing in the lounge, suggests Col. Mustard in the lounge;
  the suggestion is valid and player 2 (Col. Mustard) is moved to the lounge. From the
  study the same suggestion is not valid.
\<close>

theorem Suggestion_validate_and_perform_witness:
  "validate world_lounge suggest_lounge = Inr True
   \<and> validate world0 suggest_lounge = Inr False
   \<and> (\<exists>w'. performAction world_lounge suggest_lounge = Inr w'
          \<and> map (\<lambda>q. space_id (currentSpace q)) (player_rows w') = [3, 3])"
proof -
  let ?www = "\<lparr>character = mustard, weapon = knife, room = lounge\<rparr>"
  have b: "body suggest_lounge = Suggestion ?www" by code_simp
  have p: "player_by_id world_lounge (turn_player (action_turn suggest_lounge))
             = Inr (player1\<lparr>currentSpace := lounge_space\<rparr>)" by code_simp
  have p0: "player_by_id world0 (turn_player (action_turn suggest_lounge)) = Inr player1"
    by code_simp
  have f: "filter (\<lambda>q. currentGame q = Some (game_id (game_row world_lounge))
                        \<and> card_id (player_character q) = card_id (character ?www))
             (player_rows world_lounge) = [player2]" by code_simp
  have f0: "filter (\<lambda>q. currentGame q = Some (game_id (game_row world0))
                        \<and> card_id (player_character q) = card_id (character ?www))
             (player_rows world0) = [player2]" by code_simp
  have g: "filter (\<lambda>s. spaceCollector s = room_id (room ?www)) (space_rows world_lounge)
             = [lounge_space]" by code_simp
  have g0: "filter (\<lambda>s. spaceCollector s = room_id (room ?www)) (space_rows world0)
             = [lounge_space]" by code_simp
  have e1: "(room_id (room ?www) = spaceCollector (currentSpace (player1\<lparr>currentSpace := lounge_space\<rparr>)))
            = True" by code_simp
  have e0: "(room_id (room ?www) = spaceCollector (currentSpace player1)) = False" by code_simp
  have e2: "map (\<lambda>q. space_id (currentSpace q))
              (map (\<lambda>q. if player_id q = player_id player2
                        then player2\<lparr>currentSpace := lounge_space\<rparr> else q)
                 (player_rows world_lounge)) = [3, 3]" by code_simp
  note t1 = Suggestion_validate_and_perform[OF b p f g]
  note t0 = Suggestion_validate_and_perform[OF b p0 f0 g0]
  have "validate world_lounge suggest_lounge = Inr True" using t1 e1 by simp
  moreover have "validate world0 suggest_lounge = Inr False" using t0 e0 by simp
  moreover have "\<exists>w'. performAction world_lounge suggest_lounge = Inr w'
          \<and> map (\<lambda>q. space_id (currentSpace q)) (player_rows w') = [3, 3]"
    using t1 e2 by simp
  ultimately show ?thesis by blast
qed

text \<open>
  C6 as stated fails when the suggested room contains more than one space. The game is
  started, player 2 holds the suggested character, the lounge contains a space (it
  contains two) and the suggesting player stands in it, so the suggestion is valid; but
  \<open>Space.objects.get\<close> raises MultipleObjectsReturned and no player is moved.
\<close>

theorem Suggestion_two_spaces_counterexample:
  "status (game_row world_annex) = STARTED
   \<and> (\<exists>q \<in> set (player_rows world_annex).
         currentGame q = Some (game_id (game_row world_annex))
         \<and> card_id (player_character q) = card_id mustard)
   \<and> lounge_space \<in> set (space_rows world_annex)
   \<and> spaceCollector lounge_space = room_id lounge
   \<and> validate world_annex suggest_lounge = Inr True
   \<and> performAction world_annex suggest_lounge = Inl MultipleObjectsReturned
   \<and> takeAction world_annex turn1 suggest_lounge = Inl MultipleObjectsReturned"
  by code_simp


section \<open>The deal\<close>

lemma item_matches_key: "item_matches d c = (\<lambda>r. item_key r = (sheet_id d, card_id c))"
  by (simp add: fun_eq_iff item_matches_def item_key_def)

lemma item_key_mark [simp]: "item_key (mark_dealt r) = item_key r"
  by (simp add: item_key_def mark_dealt_def)

lemma makeNote_unique:
  assumes "length (filter (item_matches d c) (item_rows w)) = 1"
  shows "makeNote w d c chk dl mn =
           Inr (w\<lparr>item_rows :=
                  map (\<lambda>r. if item_matches d c r
                           then r\<lparr>checked := chk, initiallyDealt := dl, manuallyChecked := mn\<rparr>
                           else r) (item_rows w)\<rparr>)"
proof -
  from assms obtain si where f: "filter (item_matches d c) (item_rows w) = [si]"
    by (cases "filter (item_matches d c) (item_rows w)") auto
  have "\<And>r. r \<in> set (item_rows w) \<Longrightarrow> item_matches d c r \<Longrightarrow> r = si"
    using filter_singleton_mem(3)[OF f] .
  then have "map (\<lambda>r. if item_matches d c r
                       then si\<lparr>checked := chk, initiallyDealt := dl, manuallyChecked := mn\<rparr>
                       else r) (item_rows w)
           = map (\<lambda>r. if item_matches d c r
                       then r\<lparr>checked := chk, initiallyDealt := dl, manuallyChecked := mn\<rparr>
                       else r) (item_rows w)"
    by (intro map_cong) auto
  then show ?thesis by (simp add: makeNote_def objects_get_def f)
qed

lemma length_filter_key_map:
  assumes "\<And>r. key (f r) = key r"
  shows "length (filter (\<lambda>r. key r = t) (map f xs)) = length (filter (\<lambda>r. key r = t) xs)"
  using assms by (induction xs) auto

lemma deal_loop_result:
  assumes "ds \<noteq> []"
      and "\<forall>t \<in> set (targets i cs ds). length (filter (\<lambda>r. item_key r = t) (item_rows w)) = 1"
  shows "deal_loop i cs ds w =
           Inr (w\<lparr>item_rows :=
                  map (\<lambda>r. if item_key r \<in> set (targets i cs ds) then mark_dealt r else r)
                    (item_rows w)\<rparr>)"
  using assms
proof (induction cs arbitrary: i w)
  case Nil
  then show ?case by simp
next
  case (Cons c cs)
  let ?d = "ds ! (i mod length ds)"
  let ?t = "(sheet_id ?d, card_id c)"
  let ?f = "\<lambda>r. if item_key r = ?t then mark_dealt r else r"
  let ?w1 = "w\<lparr>item_rows := map ?f (item_rows w)\<rparr>"
  have one: "length (filter (item_matches ?d c) (item_rows w)) = 1"
    using Cons.prems(2) by (simp add: item_matches_key)
  have step: "makeNote w ?d c True True False = Inr ?w1"
    using makeNote_unique[OF one] by (simp add: item_matches_key mark_dealt_def)
  have k: "\<And>r. item_key (?f r) = item_key r" by simp
  have cnt: "\<And>t. length (filter (\<lambda>r. item_key r = t) (map ?f (item_rows w)))
                 = length (filter (\<lambda>r. item_key r = t) (item_rows w))"
    by (rule length_filter_key_map) (rule k)
  have ir: "item_rows ?w1 = map ?f (item_rows w)" by simp
  have "\<forall>t \<in> set (targets (Suc i) cs ds).
          length (filter (\<lambda>r. item_key r = t) (item_rows ?w1)) = 1"
    using Cons.prems(2) unfolding ir cnt by simp
  from Cons.IH[OF Cons.prems(1) this]
  have ih: "deal_loop (Suc i) cs ds ?w1 =
      Inr (?w1\<lparr>item_rows :=
             map (\<lambda>r. if item_key r \<in> set (targets (Suc i) cs ds) then mark_dealt r else r)
               (item_rows ?w1)\<rparr>)" .
  have comp: "map (\<lambda>r. if item_key r \<in> set (targets (Suc i) cs ds) then mark_dealt r else r)
               (map ?f (item_rows w))
        = map (\<lambda>r. if item_key r \<in> set (targets i (c # cs) ds) then mark_dealt r else r)
            (item_rows w)"
    by (auto simp: mark_dealt_def)
  show ?case
    using Cons.prems(1) step ih comp by simp
qed


lemma targets_fst_snd:
  "map snd (targets i cs ds) = map card_id cs"
  by (induction cs arbitrary: i) auto

lemma targets_map:
  "targets i cs ds =
     map (\<lambda>j. (sheet_id (ds ! ((i + j) mod length ds)), card_id (cs ! j))) [0..<length cs]"
proof (induction cs arbitrary: i)
  case Nil
  then show ?case by simp
next
  case (Cons c cs)
  have "[0..<length (c # cs)] = 0 # map Suc [0..<length cs]"
    by (simp add: upt_conv_Cons map_Suc_upt del: upt_Suc)
  then show ?case using Cons.IH[of "Suc i"] by (simp add: comp_def del: upt_Suc)
qed

lemma dealt_after_marking:
  assumes "\<forall>r \<in> set items. item_sheet r = s \<longrightarrow> \<not> (checked r \<and> initiallyDealt r)"
  shows "map item_card
           (filter (\<lambda>si. item_sheet si = s \<and> checked si \<and> initiallyDealt si)
              (map (\<lambda>r. if item_key r \<in> T then mark_dealt r else r) items))
       = map item_card (filter (\<lambda>r. item_sheet r = s \<and> item_key r \<in> T) items)"
  using assms by (induction items) (auto simp: mark_dealt_def item_key_def)

lemma count_dealt:
  "count (mset (map item_card (filter (\<lambda>r. item_sheet r = s \<and> item_key r \<in> T) items))) x
     = (if (s, x) \<in> T then length (filter (\<lambda>r. item_key r = (s, x)) items) else 0)"
  by (induction items) (auto simp: item_key_def)

lemma count_targets:
  assumes "distinct (map snd ts)"
  shows "count (mset (map snd (filter (\<lambda>t. fst t = s) ts))) x
           = (if (s, x) \<in> set ts then 1 else 0)"
  using assms by (induction ts) (force+)


lemma dealt_mset:
  assumes "distinct (map snd ts)"
      and "\<forall>t \<in> set ts. length (filter (\<lambda>r. item_key r = t) items) = 1"
  shows "mset (map item_card (filter (\<lambda>r. item_sheet r = s \<and> item_key r \<in> set ts) items))
       = mset (map snd (filter (\<lambda>t. fst t = s) ts))"
proof (rule multiset_eqI)
  fix x
  show "count (mset (map item_card
                 (filter (\<lambda>r. item_sheet r = s \<and> item_key r \<in> set ts) items))) x
      = count (mset (map snd (filter (\<lambda>t. fst t = s) ts))) x"
    unfolding count_dealt count_targets[OF assms(1)] using assms(2) by simp
qed

lemma sum_list_single:
  assumes "distinct (map f ds)" and "a \<in> f ` set ds"
  shows "(\<Sum>d\<leftarrow>ds. if a = f d then {#x#} else {#}) = {#x#}"
  using assms
proof (induction ds)
  case Nil
  then show ?case by simp
next
  case (Cons d ds)
  show ?case
  proof (cases "a = f d")
    case True
    then have "a \<notin> f ` set ds" using Cons.prems(1) by auto
    then have "(\<Sum>d\<leftarrow>ds. if a = f d then {#x#} else {#}) = {#}"
      by (induction ds) auto
    then show ?thesis using True by simp
  next
    case False
    then show ?thesis using Cons by auto
  qed
qed

lemma partition_by_sheet:
  assumes "distinct (map f ds)" and "\<forall>t \<in> set ts. fst t \<in> f ` set ds"
  shows "(\<Sum>d\<leftarrow>ds. mset (map snd (filter (\<lambda>t. fst t = f d) ts))) = mset (map snd ts)"
  using assms(2)
proof (induction ts)
  case Nil
  then show ?case by (induction ds) auto
next
  case (Cons t ts)
  have "(\<Sum>d\<leftarrow>ds. mset (map snd (filter (\<lambda>t. fst t = f d) (t # ts))))
      = (\<Sum>d\<leftarrow>ds. (if fst t = f d then {#snd t#} else {#})
                    + mset (map snd (filter (\<lambda>t. fst t = f d) ts)))"
    by (intro arg_cong[where f=sum_list] map_cong) auto
  also have "\<dots> = (\<Sum>d\<leftarrow>ds. if fst t = f d then {#snd t#} else {#})
                 + (\<Sum>d\<leftarrow>ds. mset (map snd (filter (\<lambda>t. fst t = f d) ts)))"
    by (simp add: sum_list_addf)
  also have "\<dots> = {#snd t#} + mset (map snd ts)"
    using Cons sum_list_single[OF assms(1), of "fst t" "snd t"] by simp
  finally show ?case by simp
qed

lemma mod_shift:
  assumes "k < (N::nat)"
  shows "((M + (N - k)) mod N = 0) = (M mod N = k)"
proof -
  let ?r = "M mod N"
  have r: "?r < N" using assms by simp
  have e: "(M + (N - k)) mod N = (?r + (N - k)) mod N" by (simp add: mod_add_left_eq)
  show ?thesis
  proof (cases "?r < k")
    case True
    then have "?r + (N - k) < N" using assms by simp
    then have "(?r + (N - k)) mod N = ?r + (N - k)" by simp
    then show ?thesis using e True assms by simp
  next
    case False
    then have "?r + (N - k) = N + (?r - k)" using assms by simp
    then have "(?r + (N - k)) mod N = (?r - k) mod N" by simp
    also have "\<dots> = ?r - k" using r by simp
    finally show ?thesis using e False by auto
  qed
qed

lemma count_mod:
  assumes "k < N"
  shows "length (filter (\<lambda>j. j mod N = k) [0..<M]) = (M + N - 1 - k) div N"
proof (induction M)
  case 0
  then show ?case using assms by simp
next
  case (Suc M)
  have e: "Suc M + N - 1 - k = Suc (M + N - 1 - k)" using assms by simp
  have "Suc (M + N - 1 - k) = M + (N - k)" using assms by simp
  then have m: "(Suc (M + N - 1 - k) mod N = 0) = (M mod N = k)"
    using mod_shift[OF assms, of M] by simp
  show ?case
    using Suc m unfolding e by (simp add: div_Suc)
qed

lemma floor_or_ceil:
  assumes "k < (N::nat)"
  shows "(M + N - 1 - k) div N = M div N \<or> (M + N - 1 - k) div N = (M + N - 1) div N"
proof -
  have a: "M div N \<le> (M + N - 1 - k) div N" using assms by (intro div_le_mono) simp
  have b: "(M + N - 1 - k) div N \<le> (M + N - 1) div N" by (intro div_le_mono) simp
  have "(M + N - 1) div N \<le> (M + N) div N" by (intro div_le_mono) simp
  also have "\<dots> = M div N + 1" using assms by (simp add: div_add_self2)
  finally show ?thesis using a b by linarith
qed


lemma targets_keys:
  assumes "ds \<noteq> []" and "t \<in> set (targets i cs ds)"
  shows "\<exists>d \<in> set ds. \<exists>c \<in> set cs. t = (sheet_id d, card_id c)"
  using assms(2)
proof (induction cs arbitrary: i)
  case Nil
  then show ?case by simp
next
  case (Cons c cs)
  have d: "ds ! (i mod length ds) \<in> set ds" using assms(1) by simp
  from Cons.prems
  have "t = (sheet_id (ds ! (i mod length ds)), card_id c) \<or> t \<in> set (targets (Suc i) cs ds)"
    by simp
  then show ?case
  proof
    assume "t = (sheet_id (ds ! (i mod length ds)), card_id c)"
    with d show ?thesis by auto
  next
    assume "t \<in> set (targets (Suc i) cs ds)"
    from Cons.IH[OF this] show ?thesis by auto
  qed
qed

lemma targets_of_sheet:
  assumes "distinct (map sheet_id ds)" and "k < length ds"
  shows "length (filter (\<lambda>t. fst t = sheet_id (ds ! k)) (targets 0 cs ds))
           = length (filter (\<lambda>j. j mod length ds = k) [0..<length cs])"
proof -
  have "\<And>j. (sheet_id (ds ! (j mod length ds)) = sheet_id (ds ! k)) = (j mod length ds = k)"
  proof -
    fix j
    have "0 < length ds" using assms(2) by arith
    then have "j mod length ds < length ds" by simp
    then show "(sheet_id (ds ! (j mod length ds)) = sheet_id (ds ! k)) = (j mod length ds = k)"
      using nth_eq_iff_index_eq[OF assms(1), of "j mod length ds" k] assms(2) by simp
  qed
  then show ?thesis
    by (simp add: targets_map comp_def)
qed

lemma create_nonUserPlayers_item_rows: "item_rows (create_nonUserPlayers cs w) = item_rows w"
  by (induction cs arbitrary: w) auto

text \<open>Where the loop finds one item for every note it makes, the deal phase returns.\<close>

lemma deal_phase_result:
  assumes "sheets_of_game w \<noteq> []"
      and "\<forall>t \<in> set (targets 0 (shuffle (non_case_file_cards w)) (sheets_of_game w)).
             length (filter (\<lambda>r. item_key r = t) (item_rows w)) = 1"
  shows "deal_phase shuffle w =
           Inr (w\<lparr>item_rows :=
                  map (\<lambda>r. if item_key r
                                \<in> set (targets 0 (shuffle (non_case_file_cards w)) (sheets_of_game w))
                           then mark_dealt r else r) (item_rows w)\<rparr>)"
  unfolding deal_phase_def deal_def by (rule deal_loop_result[OF assms])

text \<open>
  \<open>startGame\<close> runs the deal phase on the database it has then (the status and the
  first turn are saved, the sheets, the cards and the case file are what they were), and
  nothing after the deal phase writes a sheet item.
\<close>

lemma startGame_deals_first_turn:
  assumes "startGame shuffle w usr = Inr w'"
  shows "\<exists>(host :: player) w3.
           deal_phase shuffle
             (w\<lparr>turn_rows := turn_rows w @
                   [\<lparr>turn_id = fresh_id (map turn_id (turn_rows w)),
                     turn_player = player_id host, turn_game = game_id (game_row w)\<rparr>],
                game_row := (game_row w)\<lparr>status := STARTED,
                   currentTurn := Some (fresh_id (map turn_id (turn_rows w)))\<rparr>\<rparr>) = Inr w3
           \<and> item_rows w' = item_rows w3"
  using assms
  apply (auto simp: startGame_def Let_def registerGameUpdate_def create_nonUserPlayers_item_rows
        split: if_splits sum.splits)
  subgoal for host w3 z p t
    by (rule exI[of _ host], rule exI[of _ w3]) simp
  done

lemma startGame_deals:
  assumes "startGame shuffle w usr = Inr w'"
  shows "\<exists>w2 w3. item_rows w2 = item_rows w \<and> sheets_of_game w2 = sheets_of_game w
           \<and> non_case_file_cards w2 = non_case_file_cards w
           \<and> deal_phase shuffle w2 = Inr w3 \<and> item_rows w' = item_rows w3"
proof -
  from startGame_deals_first_turn[OF assms] obtain host :: player and w3 where
    d: "deal_phase shuffle
             (w\<lparr>turn_rows := turn_rows w @
                   [\<lparr>turn_id = fresh_id (map turn_id (turn_rows w)),
                     turn_player = player_id host, turn_game = game_id (game_row w)\<rparr>],
                game_row := (game_row w)\<lparr>status := STARTED,
                   currentTurn := Some (fresh_id (map turn_id (turn_rows w)))\<rparr>\<rparr>) = Inr w3"
    and r: "item_rows w' = item_rows w3" by blast
  show ?thesis
    by (intro exI conjI, rule_tac [4] d, rule_tac [4] r)
       (simp_all add: sheets_of_game_def non_case_file_cards_def)
qed

text \<open>
  C4, as the code has it. Take the detective sheets of the game (the rows of
  DetectiveSheet whose game is this game), N \<ge> 1 of them, and the M cards of the
  registry whose key is none of the three keys of the case file. Let the sheets and the
  cards have distinct primary keys, let every sheet of the game hold exactly one item
  per card of the registry, and let no item of these sheets be marked both checked and
  initiallyDealt yet (\<open>addDefaultSheets\<close> leaves them so). Then, however
  \<open>random.shuffle\<close> permutes the list, the deal phase of \<open>startGame\<close> returns, every
  sheet of the game has floor(M/N) or ceil(M/N) cards marked checked and initiallyDealt,
  and the dealt cards of all sheets together are exactly the cards outside the case
  file, no card dealt twice. These are the sheet items of the started game: whenever
  \<open>startGame\<close> returns, its SheetItem table is the table the deal phase left.
\<close>

theorem deal_distributes:
  fixes sheets :: "detectiveSheet list" and cards :: "card list"
  assumes S: "sheets = filter (\<lambda>d. sheet_game d = game_id (game_row w)) (sheet_rows w)"
      and C: "cards = filter (\<lambda>c. card_id c \<noteq> card_id (character (caseFile (game_row w)))
                                \<and> card_id c \<noteq> card_id (room (caseFile (game_row w)))
                                \<and> card_id c \<noteq> card_id (weapon (caseFile (game_row w))))
                        (card_rows w)"
      and nonempty: "sheets \<noteq> []"
      and ids: "distinct (map sheet_id sheets)"
      and keys: "distinct (map card_id (card_rows w))"
      and one: "\<forall>d \<in> set sheets. \<forall>c \<in> set (card_rows w).
                  length (filter (\<lambda>r. item_sheet r = sheet_id d \<and> item_card r = card_id c)
                            (item_rows w)) = 1"
      and fresh: "\<forall>r \<in> set (item_rows w).
                    item_sheet r \<in> sheet_id ` set sheets \<longrightarrow> \<not> (checked r \<and> initiallyDealt r)"
      and shuffle: "\<forall>xs. mset (shuffle xs) = mset xs"
  shows "\<exists>wd. deal_phase shuffle w = Inr wd
           \<and> (\<forall>d \<in> set sheets.
                  length (dealt_cards wd d) = length cards div length sheets
                \<or> length (dealt_cards wd d) = (length cards + length sheets - 1) div length sheets)
           \<and> mset (concat (map (dealt_cards wd) sheets)) = mset (map card_id cards)
           \<and> distinct (concat (map (dealt_cards wd) sheets))
           \<and> (\<forall>usr w'. startGame shuffle w usr = Inr w' \<longrightarrow> item_rows w' = item_rows wd)"
proof -
  let ?N = "length sheets"
  let ?M = "length cards"
  let ?cl = "shuffle cards"
  let ?ts = "targets 0 ?cl sheets"
  let ?mark = "\<lambda>r. if item_key r \<in> set ?ts then mark_dealt r else r"
  let ?w' = "w\<lparr>item_rows := map ?mark (item_rows w)\<rparr>"
  have sg: "sheets_of_game w = sheets" by (simp add: S sheets_of_game_def)
  have nc: "non_case_file_cards w = cards" by (simp add: C non_case_file_cards_def conj_assoc)
  have shuffled: "mset ?cl = mset cards" using shuffle by simp
  have len: "length ?cl = ?M" using shuffled by (metis size_mset)
  have sub: "set ?cl \<subseteq> set (card_rows w)"
  proof -
    have "set ?cl = set cards" using shuffled by (rule mset_eq_setD)
    then show ?thesis by (auto simp: C)
  qed
  have dist_nc: "distinct (map card_id cards)"
    unfolding C using keys by (intro distinct_map_filter)
  have ids_eq: "mset (map card_id ?cl) = mset (map card_id cards)"
    using shuffled by simp
  have dist_cl: "distinct (map card_id ?cl)"
    using mset_eq_imp_distinct_iff[OF ids_eq] dist_nc by simp
  have dist_ts: "distinct (map snd ?ts)" using dist_cl by (simp add: targets_fst_snd)
  have uniq: "\<forall>t \<in> set ?ts. length (filter (\<lambda>r. item_key r = t) (item_rows w)) = 1"
  proof
    fix t assume "t \<in> set ?ts"
    from targets_keys[OF nonempty this] obtain d c
      where dc: "d \<in> set sheets" "c \<in> set ?cl" "t = (sheet_id d, card_id c)" by blast
    have "(\<lambda>r. item_key r = t) = (\<lambda>r. item_sheet r = sheet_id d \<and> item_card r = card_id c)"
      using dc(3) by (auto simp: item_key_def)
    then show "length (filter (\<lambda>r. item_key r = t) (item_rows w)) = 1"
      using one sub dc(1,2) by auto
  qed
  have run: "deal_phase shuffle w = Inr ?w'"
    using deal_phase_result[of w shuffle] nonempty uniq unfolding sg nc by simp
  have dealt: "\<And>d. d \<in> set sheets \<Longrightarrow>
                  mset (dealt_cards ?w' d) = mset (map snd (filter (\<lambda>t. fst t = sheet_id d) ?ts))"
  proof -
    fix d assume d: "d \<in> set sheets"
    have "\<forall>r \<in> set (item_rows w). item_sheet r = sheet_id d \<longrightarrow> \<not> (checked r \<and> initiallyDealt r)"
      using fresh d by auto
    from dealt_after_marking[OF this, of "set ?ts"]
    have "dealt_cards ?w' d
        = map item_card (filter (\<lambda>r. item_sheet r = sheet_id d \<and> item_key r \<in> set ?ts)
            (item_rows w))"
      unfolding dealt_cards_def by simp
    then show "mset (dealt_cards ?w' d) = mset (map snd (filter (\<lambda>t. fst t = sheet_id d) ?ts))"
      using dealt_mset[OF dist_ts uniq] by simp
  qed
  have sizes: "\<forall>d \<in> set sheets. length (dealt_cards ?w' d) = ?M div ?N
                 \<or> length (dealt_cards ?w' d) = (?M + ?N - 1) div ?N"
  proof
    fix d assume d: "d \<in> set sheets"
    then obtain k where k: "k < ?N" "sheets ! k = d" by (auto simp: in_set_conv_nth)
    have "length (dealt_cards ?w' d) = size (mset (dealt_cards ?w' d))" by simp
    also have "\<dots> = length (filter (\<lambda>t. fst t = sheet_id d) ?ts)"
      unfolding dealt[OF d] by (simp only: size_mset length_map)
    also have "\<dots> = length (filter (\<lambda>j. j mod ?N = k) [0..<?M])"
      using targets_of_sheet[OF ids k(1), of ?cl] k(2) len by simp
    also have "\<dots> = (?M + ?N - 1 - k) div ?N" by (rule count_mod[OF k(1)])
    finally show "length (dealt_cards ?w' d) = ?M div ?N
                 \<or> length (dealt_cards ?w' d) = (?M + ?N - 1) div ?N"
      using floor_or_ceil[OF k(1), of ?M] by simp
  qed
  have fsts: "\<forall>t \<in> set ?ts. fst t \<in> sheet_id ` set sheets"
    using targets_keys[OF nonempty] by fastforce
  have "mset (concat (map (dealt_cards ?w') sheets)) = (\<Sum>d\<leftarrow>sheets. mset (dealt_cards ?w' d))"
    by (simp add: mset_concat comp_def)
  also have "\<dots> = (\<Sum>d\<leftarrow>sheets. mset (map snd (filter (\<lambda>t. fst t = sheet_id d) ?ts)))"
    by (intro arg_cong[where f = sum_list] map_cong refl dealt)
  also have "\<dots> = mset (map snd ?ts)" by (rule partition_by_sheet[OF ids fsts])
  also have "\<dots> = mset (map card_id cards)"
    using ids_eq by (simp add: targets_fst_snd)
  finally have all: "mset (concat (map (dealt_cards ?w') sheets)) = mset (map card_id cards)" .
  have once: "distinct (concat (map (dealt_cards ?w') sheets))"
    using mset_eq_imp_distinct_iff[OF all] dist_nc by simp
  have started: "\<forall>usr w'. startGame shuffle w usr = Inr w' \<longrightarrow> item_rows w' = item_rows ?w'"
  proof (intro allI impI)
    fix usr w' assume "startGame shuffle w usr = Inr w'"
    from startGame_deals[OF this] obtain w2 w3 where
      e: "item_rows w2 = item_rows w" "sheets_of_game w2 = sheets"
         "non_case_file_cards w2 = cards"
      and d: "deal_phase shuffle w2 = Inr w3" and r: "item_rows w' = item_rows w3"
      unfolding sg nc by blast
    have "deal_phase shuffle w2 = Inr (w2\<lparr>item_rows := map ?mark (item_rows w)\<rparr>)"
      using deal_phase_result[of w2 shuffle] nonempty uniq unfolding e by simp
    with d have "item_rows w3 = map ?mark (item_rows w)" by auto
    with r show "item_rows w' = item_rows ?w'" by simp
  qed
  from run sizes all once started show ?thesis by blast
qed

text \<open>
  The instance: the small game before its start, two sheets and five cards outside the
  case file, the shuffle reversing the list. Each sheet gets two or three cards, the
  dealt cards are the cards 2, 4, 5, 7 and 8, each once, and they are the sheet items of
  the game that alice, the host, starts.
\<close>

theorem deal_distributes_witness:
  "\<exists>wd. deal_phase rev world_new = Inr wd
     \<and> (length (dealt_cards wd sheet1) = 2 \<or> length (dealt_cards wd sheet1) = 3)
     \<and> (length (dealt_cards wd sheet2) = 2 \<or> length (dealt_cards wd sheet2) = 3)
     \<and> mset (dealt_cards wd sheet1 @ dealt_cards wd sheet2) = mset [2, 4, 5, 7, 8]
     \<and> distinct (dealt_cards wd sheet1 @ dealt_cards wd sheet2)
     \<and> (\<exists>w'. startGame rev world_new alice = Inr w' \<and> item_rows w' = item_rows wd)"
proof -
  let ?sheets = "[sheet1, sheet2]"
  let ?cards = "[\<lparr>card_id = 2, name = ''Lounge''\<rparr>, \<lparr>card_id = 4, name = ''Col. Mustard''\<rparr>,
                 \<lparr>card_id = 5, name = ''Prof. Plum''\<rparr>, knife, wrench]"
  have S: "?sheets = filter (\<lambda>d. sheet_game d = game_id (game_row world_new)) (sheet_rows world_new)"
    by code_simp
  have C: "?cards = filter (\<lambda>c. card_id c \<noteq> card_id (character (caseFile (game_row world_new)))
                        \<and> card_id c \<noteq> card_id (room (caseFile (game_row world_new)))
                        \<and> card_id c \<noteq> card_id (weapon (caseFile (game_row world_new))))
                (card_rows world_new)"
    by code_simp
  have n: "?sheets \<noteq> []" by simp
  have i: "distinct (map sheet_id ?sheets)" by code_simp
  have k: "distinct (map card_id (card_rows world_new))" by code_simp
  have o: "\<forall>d \<in> set ?sheets. \<forall>c \<in> set (card_rows world_new).
             length (filter (\<lambda>r. item_sheet r = sheet_id d \<and> item_card r = card_id c)
                       (item_rows world_new)) = 1" by code_simp
  have f: "\<forall>r \<in> set (item_rows world_new).
             item_sheet r \<in> sheet_id ` set ?sheets \<longrightarrow> \<not> (checked r \<and> initiallyDealt r)"
    by code_simp
  have sh: "\<forall>xs :: card list. mset (rev xs) = mset xs" by simp
  have cid: "map card_id ?cards = [2, 4, 5, 7, 8]" by code_simp
  have l: "length ?cards = 5" "length ?sheets = 2" by simp_all
  have "\<not> isl (startGame rev world_new alice)" by code_simp
  then obtain w' where st: "startGame rev world_new alice = Inr w'"
    by (cases "startGame rev world_new alice") auto
  from deal_distributes[OF S C n i k o f sh] obtain wd where
    a: "deal_phase rev world_new = Inr wd"
    and b: "\<forall>d \<in> set ?sheets.
              length (dealt_cards wd d) = length ?cards div length ?sheets
            \<or> length (dealt_cards wd d) = (length ?cards + length ?sheets - 1) div length ?sheets"
    and c: "mset (concat (map (dealt_cards wd) ?sheets)) = mset (map card_id ?cards)"
    and e: "distinct (concat (map (dealt_cards wd) ?sheets))"
    and g: "\<forall>usr w'. startGame rev world_new usr = Inr w' \<longrightarrow> item_rows w' = item_rows wd"
    by blast
  from g st have "item_rows w' = item_rows wd" by blast
  with st have h: "\<exists>w'. startGame rev world_new alice = Inr w' \<and> item_rows w' = item_rows wd"
    by blast
  from b have b': "(length (dealt_cards wd sheet1) = 2 \<or> length (dealt_cards wd sheet1) = 3)
     \<and> (length (dealt_cards wd sheet2) = 2 \<or> length (dealt_cards wd sheet2) = 3)"
    unfolding l by simp
  from c have c': "mset (dealt_cards wd sheet1 @ dealt_cards wd sheet2) = mset [2, 4, 5, 7, 8]"
    unfolding cid by simp
  from e have e': "distinct (dealt_cards wd sheet1 @ dealt_cards wd sheet2)" by simp
  from a b' c' e' h show ?thesis by blast
qed

text \<open>
  C4 as stated fails when a sheet item of the game is already marked before the start.
  Before the game starts, \<open>makeNote\<close> marks the Study, the room of the case file, as
  checked and initially dealt on the sheet of player 1. The game has two sheets and five
  cards outside the case file, and the deal never clears a mark: in the started game the
  sheet of player 1 has four cards marked checked and initiallyDealt, neither
  floor(5/2) nor ceil(5/2), and one of them is a card of the case file.
\<close>

theorem deal_after_note_counterexample:
  "makeNote world_new sheet1 \<lparr>card_id = 1, name = ''Study''\<rparr> True True False = Inr world_noted
   \<and> card_id (room (caseFile (game_row world_noted))) = 1
   \<and> length (filter (\<lambda>d. sheet_game d = game_id (game_row world_noted)) (sheet_rows world_noted)) = 2
   \<and> length (filter (\<lambda>c. card_id c \<noteq> card_id (character (caseFile (game_row world_noted)))
                        \<and> card_id c \<noteq> card_id (room (caseFile (game_row world_noted)))
                        \<and> card_id c \<noteq> card_id (weapon (caseFile (game_row world_noted))))
                (card_rows world_noted)) = 5
   \<and> (case startGame rev world_noted alice of
         Inl e \<Rightarrow> False
       | Inr w' \<Rightarrow> dealt_cards w' sheet1 = [1, 2, 5, 8] \<and> dealt_cards w' sheet2 = [4, 7])"
  by code_simp

section \<open>What the code does around the claims\<close>

text \<open>
  \<open>Move.validate\<close> is true exactly when one of the two coordinates differs by 2,
  whatever the other coordinate does: (x+2, y) validates, (x+1, y) does not.
\<close>

theorem Move_validate_either_axis:
  "Move_validate f t =
     (\<bar>posX t - posX f\<bar> = 2 \<or> \<bar>posY t - posY f\<bar> = 2)"
  by (auto simp: Move_validate_def)

text \<open>\<open>Move.performAction\<close> leaves the database as it is.\<close>

theorem Move_performAction_changes_nothing:
  "performAction w \<lparr>action_turn = t, body = Move f s\<rparr> = Inr w"
  by (simp add: performAction_def Move_performAction_def)

text \<open>\<open>registerGameUpdate\<close> adds one to the sequence counter.\<close>

theorem registerGameUpdate_increments:
  "currentSequence (game_row (registerGameUpdate w)) = currentSequence (game_row w) + 1"
  by (simp add: registerGameUpdate_def)

lemma makeNote_game_row: "makeNote w d c a b m = Inr w' \<Longrightarrow> game_row w' = game_row w"
  by (auto simp: makeNote_def split: sum.splits)

lemma deal_loop_game_row: "deal_loop i cs ds w = Inr w' \<Longrightarrow> game_row w' = game_row w"
proof (induction cs arbitrary: i w)
  case Nil
  then show ?case by simp
next
  case (Cons c cs)
  then show ?case
    by (auto split: if_splits sum.splits dest!: makeNote_game_row)
qed

lemma create_nonUserPlayers_game_row: "game_row (create_nonUserPlayers cs w) = game_row w"
  by (induction cs arbitrary: w) auto

text \<open>
  The operations of Game call \<open>registerGameUpdate\<close> once: where \<open>initializeGame\<close>,
  \<open>addPlayer\<close> and \<open>startGame\<close> return, and after \<open>endGame\<close> and \<open>loseGame\<close>, the
  counter is one greater than before.
\<close>

theorem game_operations_increment_sequence:
  "(case initializeGame w h r1 r2 r3 of Inl e \<Rightarrow> True
    | Inr w' \<Rightarrow> currentSequence (game_row w') = currentSequence (game_row w) + 1)
   \<and> (case addPlayer w p of Inl e \<Rightarrow> True
    | Inr w' \<Rightarrow> currentSequence (game_row w') = currentSequence (game_row w) + 1)
   \<and> (case startGame shuffle w u of Inl e \<Rightarrow> True
    | Inr w' \<Rightarrow> currentSequence (game_row w') = currentSequence (game_row w) + 1)
   \<and> currentSequence (game_row (endGame w p)) = currentSequence (game_row w) + 1
   \<and> currentSequence (game_row (loseGame w p)) = currentSequence (game_row w) + 1"
proof -
  have a: "case initializeGame w h r1 r2 r3 of Inl e \<Rightarrow> True
    | Inr w' \<Rightarrow> currentSequence (game_row w') = currentSequence (game_row w) + 1"
    by (simp add: initializeGame_def registerGameUpdate_def split: sum.split list.split)
  have b: "case addPlayer w p of Inl e \<Rightarrow> True
    | Inr w' \<Rightarrow> currentSequence (game_row w') = currentSequence (game_row w) + 1"
    by (simp add: addPlayer_def registerGameUpdate_def addDefaultSheets_def Let_def)
  have c: "case startGame shuffle w u of Inl e \<Rightarrow> True
    | Inr w' \<Rightarrow> currentSequence (game_row w') = currentSequence (game_row w) + 1"
    by (auto simp: startGame_def registerGameUpdate_def Let_def deal_def deal_phase_def
          create_nonUserPlayers_game_row
          split: sum.split dest!: deal_loop_game_row)
  have d: "currentSequence (game_row (endGame w p)) = currentSequence (game_row w) + 1"
    by (simp add: endGame_def registerGameUpdate_def Let_def)
  have e: "currentSequence (game_row (loseGame w p)) = currentSequence (game_row w) + 1"
    by (simp add: loseGame_def registerGameUpdate_def)
  from a b c d e show ?thesis by blast
qed

text \<open>The instances: a third player joins the small game, and its host starts it.\<close>

theorem game_operations_increment_sequence_witness:
  "(\<exists>w'. addPlayer world_new player3 = Inr w' \<and> currentSequence (game_row w') = 6)
   \<and> (\<exists>w'. startGame rev world_new alice = Inr w' \<and> currentSequence (game_row w') = 6)"
proof -
  have s: "currentSequence (game_row world_new) = 5" by code_simp
  have "\<not> isl (addPlayer world_new player3)" by code_simp
  then obtain w1 where w1: "addPlayer world_new player3 = Inr w1"
    by (cases "addPlayer world_new player3") auto
  have "\<not> isl (startGame rev world_new alice)" by code_simp
  then obtain w2 where w2: "startGame rev world_new alice = Inr w2"
    by (cases "startGame rev world_new alice") auto
  from game_operations_increment_sequence[of world_new player1 0 0 0 player3 rev alice] w1 w2 s
  show ?thesis by simp
qed

text \<open>
  The operations of Turn and the two actions that are not accusations never call it:
  where \<open>endTurn\<close> and \<open>Suggestion.performAction\<close> return, and after
  \<open>Move.performAction\<close>, the counter is what it was.
\<close>

theorem turn_operations_keep_sequence:
  "(case endTurn w t of Inl e \<Rightarrow> True
    | Inr w' \<Rightarrow> currentSequence (game_row w') = currentSequence (game_row w))
   \<and> (case Suggestion_performAction w a www of Inl e \<Rightarrow> True
    | Inr w' \<Rightarrow> currentSequence (game_row w') = currentSequence (game_row w))
   \<and> (case Move_performAction w a of Inl e \<Rightarrow> True
    | Inr w' \<Rightarrow> currentSequence (game_row w') = currentSequence (game_row w))"
  by (simp add: endTurn_def Suggestion_performAction_def Move_performAction_def Let_def
        split: sum.split option.split)


text \<open>The instance: the turn of player 1 ends with the counter still at 5.\<close>

theorem turn_operations_keep_sequence_witness:
  "\<exists>w'. endTurn world0 turn1 = Inr w' \<and> currentSequence (game_row w') = 5"
proof -
  have s: "currentSequence (game_row world0) = 5" by code_simp
  have "\<not> isl (endTurn world0 turn1)" by code_simp
  then obtain w1 where w1: "endTurn world0 turn1 = Inr w1"
    by (cases "endTurn world0 turn1") auto
  from turn_operations_keep_sequence[of world0 turn1] w1 s
  show ?thesis by simp
qed


text \<open>
  \<open>addPlayer\<close> raises when the user already has a player in the game, and otherwise
  when a player of the game already holds the character.
\<close>

theorem addPlayer_rejects_duplicates:
  "(isUserInGame w (user p)
      \<longrightarrow> addPlayer w p = Inl (RuntimeError ''User is already a player in this game''))
   \<and> (\<not> isUserInGame w (user p)
        \<and> (\<exists>q \<in> set (players_of_game w).
              card_id (player_character q) = card_id (player_character p))
      \<longrightarrow> addPlayer w p = Inl (RuntimeError ''Character is already in use''))"
proof -
  have "(\<exists>q \<in> set (players_of_game w).
              card_id (player_character q) = card_id (player_character p))
        \<Longrightarrow> isCharacterInGame w (player_character p)"
    by (auto simp: isCharacterInGame_def players_of_game_def filter_empty_conv)
  then show ?thesis by (auto simp: addPlayer_def)
qed

text \<open>The instances: a second player for alice, and a second Col. Mustard.\<close>

theorem addPlayer_rejects_duplicates_witness:
  "addPlayer world_new (player3\<lparr>user := Some alice\<rparr>)
     = Inl (RuntimeError ''User is already a player in this game'')
   \<and> addPlayer world_new (player3\<lparr>player_character := mustard\<rparr>)
     = Inl (RuntimeError ''Character is already in use'')"
proof -
  have a: "isUserInGame world_new (user (player3\<lparr>user := Some alice\<rparr>))" by code_simp
  have b: "\<not> isUserInGame world_new (user (player3\<lparr>player_character := mustard\<rparr>))"
    by code_simp
  have c: "\<exists>q \<in> set (players_of_game world_new).
             card_id (player_character q)
               = card_id (player_character (player3\<lparr>player_character := mustard\<rparr>))"
    by code_simp
  from addPlayer_rejects_duplicates[of world_new "player3\<lparr>user := Some alice\<rparr>"] a
    addPlayer_rejects_duplicates[of world_new "player3\<lparr>player_character := mustard\<rparr>"] b c
  show ?thesis by blast
qed

end
